theory Spec2Isabelle
  imports Main
begin

section \<open>JavaScript strings\<close>

text \<open>
  The strings of a request and of the store are JavaScript strings. A string is modelled as
  a list of code units in
  the range U+0000..U+00FF (one \<^typ>\<open>char\<close> each), so \<open>length\<close> is the source's
  \<^verbatim>\<open>.length\<close>. On this range \<^verbatim>\<open>String.prototype.toLowerCase\<close> maps A..Z and the
  Latin-1 capitals U+00C0..U+00DE (except the multiplication sign U+00D7) to the code unit
  32 above, and \<^verbatim>\<open>String.prototype.trim\<close> strips TAB, LF, VT, FF, CR, SPACE and NBSP from
  both ends.
\<close>

definition js_whitespace :: "char \<Rightarrow> bool" where
  "js_whitespace c = (of_char c \<in> set [9, 10, 11, 12, 13, 32, 160 :: nat])"

definition char_toLowerCase :: "char \<Rightarrow> char" where
  "char_toLowerCase c =
     (let n = of_char c :: nat
      in if (65 \<le> n \<and> n \<le> 90) \<or> (192 \<le> n \<and> n \<le> 222 \<and> n \<noteq> 215)
         then char_of (n + 32) else c)"

definition toLowerCase :: "string \<Rightarrow> string" where
  "toLowerCase s = map char_toLowerCase s"

definition trimStart :: "string \<Rightarrow> string" where
  "trimStart s = dropWhile js_whitespace s"

definition trim :: "string \<Rightarrow> string" where
  "trim s = rev (trimStart (rev (trimStart s)))"

text \<open>
  The regular expression \<^verbatim>\<open>/^\S+@\S+\.\S+$/\<close> of the user schema, as a backtracking
  matcher: \<^verbatim>\<open>\S+\<close> takes one or more non-whitespace code units and may stop wherever
  the rest of the pattern matches.
\<close>

definition match_nonspace_plus_end :: "string \<Rightarrow> bool" where
  "match_nonspace_plus_end s = (s \<noteq> [] \<and> list_all (\<lambda>c. \<not> js_whitespace c) s)"

fun match_domain :: "string \<Rightarrow> bool" where
  "match_domain [] = False"
| "match_domain (c # cs) =
     (\<not> js_whitespace c \<and>
      ((case cs of d # rest \<Rightarrow> d = CHR ''.'' \<and> match_nonspace_plus_end rest | [] \<Rightarrow> False)
       \<or> match_domain cs))"

fun match_email :: "string \<Rightarrow> bool" where
  "match_email [] = False"
| "match_email (c # cs) =
     (\<not> js_whitespace c \<and>
      ((case cs of d # rest \<Rightarrow> d = CHR ''@'' \<and> match_domain rest | [] \<Rightarrow> False)
       \<or> match_email cs))"

section \<open>JSON values and HTTP responses\<close>

text \<open>
  A response is the status passed to \<^verbatim>\<open>res.status\<close> (200 when the handler calls
  \<^verbatim>\<open>res.json\<close> directly) and the object passed to \<^verbatim>\<open>res.json\<close>. Objects keep their
  keys in the order of the source's object literal; a key whose value is \<^verbatim>\<open>undefined\<close>
  is not serialised and so is left out. Dates are milliseconds since the epoch, ObjectIds
  are natural numbers ordered as the driver orders them.
\<close>

datatype json =
    JNull
  | JBool bool
  | JNum int
  | JStr string
  | JDate int
  | JId nat
  | JObj "(string \<times> json) list"

record response =
  status :: nat
  body :: json

definition json_get :: "string \<Rightarrow> json \<Rightarrow> json option" where
  "json_get k j = (case j of JObj kvs \<Rightarrow> map_of kvs k | _ \<Rightarrow> None)"

definition json_keys :: "json \<Rightarrow> string list" where
  "json_keys j = (case j of JObj kvs \<Rightarrow> map fst kvs | _ \<Rightarrow> [])"

fun join :: "string \<Rightarrow> string list \<Rightarrow> string" where
  "join sep [] = []"
| "join sep [x] = x"
| "join sep (x # y # ys) = x @ sep @ join sep (y # ys)"

section \<open>The document store behind Mongoose\<close>

text \<open>
  A collection is either reachable, holding its documents in insertion order, or
  unreachable, in which case every operation on it throws the driver's error (whose
  message the constructor carries). Errors are JavaScript error objects reduced to the
  properties the handlers read: \<^verbatim>\<open>code\<close>, \<^verbatim>\<open>name\<close>, \<^verbatim>\<open>message\<close> and, for a Mongoose
  validation error, \<^verbatim>\<open>errors\<close> as (path, message) pairs.
\<close>

datatype 'a collection = Unavailable string | Available "'a list"

record js_error =
  code :: "nat option"
  name :: string
  message :: string
  errors :: "(string \<times> string) list"

definition store_error :: "string \<Rightarrow> js_error" where
  "store_error m = \<lparr>code = None, name = ''MongooseError'', message = m, errors = []\<rparr>"

definition duplicate_key_error :: js_error where
  "duplicate_key_error =
     \<lparr>code = Some 11000, name = ''MongoServerError'',
      message = ''E11000 duplicate key error'', errors = []\<rparr>"

definition validation_error :: "(string \<times> string) list \<Rightarrow> js_error" where
  "validation_error errs =
     \<lparr>code = None, name = ''ValidationError'',
      message = ''User validation failed: '' @ join '', '' (map (\<lambda>(p, m). p @ '': '' @ m) errs),
      errors = errs\<rparr>"

record user =
  uid :: nat
  fullName :: string
  email :: string
  password :: string
  createdAt :: int
  lastLogin :: "int option"

text \<open>
  \<^verbatim>\<open>User.findOne({ email: k })\<close>: the first document whose email is \<open>k\<close>, or null.
\<close>

definition findOne_by_email :: "string \<Rightarrow> user collection \<Rightarrow> js_error + user option" where
  "findOne_by_email k st =
     (case st of
        Unavailable m \<Rightarrow> Inl (store_error m)
      | Available docs \<Rightarrow> Inr (find (\<lambda>u. email u = k) docs))"

text \<open>
  Inserting a new document. Both schemas declare \<^verbatim>\<open>email\<close> with \<^verbatim>\<open>unique: true\<close>, so the
  collection has a unique index on it and an insert whose email is already present fails
  with error code 11000. The ObjectId of a new document is generated fresh.
\<close>

definition ObjectId :: "user collection \<Rightarrow> nat" where
  "ObjectId st = (case st of Unavailable m \<Rightarrow> 0 | Available docs \<Rightarrow> Suc (fold max (map uid docs) 0))"

definition insertOne :: "user \<Rightarrow> user collection \<Rightarrow> js_error + user collection" where
  "insertOne doc st =
     (case st of
        Unavailable m \<Rightarrow> Inl (store_error m)
      | Available docs \<Rightarrow>
          if email doc \<in> set (map email docs) then Inl duplicate_key_error
          else Inr (Available (docs @ [doc])))"

section \<open>Requests and configuration\<close>

text \<open>
  The handlers destructure \<^verbatim>\<open>req.body\<close>, which the body parser builds from JSON. A
  field is absent (\<^verbatim>\<open>undefined\<close>) or any JSON value. A number is represented by the
  string \<^verbatim>\<open>Number.prototype.toString\<close> gives for it (\<^verbatim>\<open>12345\<close>, \<^verbatim>\<open>1.5\<close>,
  \<^verbatim>\<open>1e+21\<close>): two numbers are \<^verbatim>\<open>===\<close> exactly when these strings are equal, the
  falsy number of a JSON body is the one printed \<^verbatim>\<open>0\<close>, and casting a number to a
  string yields this string.
\<close>

datatype jsval =
    Undefined
  | Null
  | Bool bool
  | Num string
  | Str string
  | Arr "jsval list"
  | Obj "(string \<times> jsval) list"

record request_body =
  body_fullName :: jsval
  body_email :: jsval
  body_password :: jsval
  body_confirmPassword :: jsval

text \<open>\<^verbatim>\<open>!x\<close>: the falsy values.\<close>

fun falsy :: "jsval \<Rightarrow> bool" where
  "falsy Undefined = True"
| "falsy Null = True"
| "falsy (Bool b) = (b = False)"
| "falsy (Num n) = (n = ''0'' \<or> n = ''NaN'')"
| "falsy (Str s) = (s = [])"
| "falsy (Arr xs) = False"
| "falsy (Obj kvs) = False"

text \<open>
  \<^verbatim>\<open>x === y\<close> on two values of a parsed body. Arrays and objects are compared by
  identity, and two fields of a parsed body never hold the same array or object.
\<close>

fun strict_equal :: "jsval \<Rightarrow> jsval \<Rightarrow> bool" where
  "strict_equal Undefined Undefined = True"
| "strict_equal Null Null = True"
| "strict_equal (Bool a) (Bool b) = (a = b)"
| "strict_equal (Num a) (Num b) = (a = b \<and> a \<noteq> ''NaN'')"
| "strict_equal (Str a) (Str b) = (a = b)"
| "strict_equal _ _ = False"

text \<open>
  \<open>NODE_ENV\<close> is the process environment variable. The other three fields say what
  Mongoose, which is not part of the sources, does where the handlers leave it to the
  library; every theorem below holds for all their values.
  \<^item> \<open>runSettersOnQuery\<close>: whether a schema path's setters (\<^verbatim>\<open>lowercase\<close>, \<^verbatim>\<open>trim\<close>)
    are applied to the value of a query filter on that path, as Mongoose 5 and later do.
  \<^item> \<open>cast_other v\<close>: the cast to a String path of a value \<open>v\<close> that is not a string, a
    number or a boolean: \<open>Inr\<close> the string, or \<open>Inl\<close> the message of the CastError.
  \<^item> \<open>query_other v st\<close>: the result of \<^verbatim>\<open>User.findOne({ email: v })\<close> on the collection
    \<open>st\<close> for such a value (an array is a list of alternatives, an object may hold query
    operators).
\<close>

record config =
  NODE_ENV :: "string option"
  runSettersOnQuery :: bool
  cast_other :: "jsval \<Rightarrow> string + string"
  query_other :: "jsval \<Rightarrow> user collection \<Rightarrow> js_error + user option"

text \<open>
  Mongoose's cast of a value to a String path: a string is kept, a number or a boolean is
  printed.
\<close>

definition cast_String :: "config \<Rightarrow> jsval \<Rightarrow> string + string" where
  "cast_String cfg v =
     (case v of
        Str s \<Rightarrow> Inr s
      | Num n \<Rightarrow> Inr n
      | Bool b \<Rightarrow> Inr (if b then ''true'' else ''false'')
      | _ \<Rightarrow> cast_other cfg v)"

definition type_error :: "string \<Rightarrow> js_error" where
  "type_error m = \<lparr>code = None, name = ''TypeError'', message = m, errors = []\<rparr>"

definition fail_response :: "nat \<Rightarrow> string \<Rightarrow> response" where
  "fail_response st m = \<lparr>status = st, body = JObj [(''success'', JBool False), (''message'', JStr m)]\<rparr>"

section \<open>Request validation (the same text in server.js and in videoRoutes.js)\<close>

text \<open>
  \<^verbatim>\<open>POST /api/register\<close> first checks that none of the four fields is falsy, then that
  \<^verbatim>\<open>password === confirmPassword\<close>, then \<^verbatim>\<open>password.length < 6\<close>. The result is the
  400 response of the first failing check, or the three fields the handler goes on with.
  A password that has passed the first two checks is a string, a number or \<^verbatim>\<open>true\<close>; on
  a number or a boolean \<^verbatim>\<open>.length\<close> is \<^verbatim>\<open>undefined\<close> and \<^verbatim>\<open>undefined < 6\<close> is false.
\<close>

definition register_validate ::
  "jsval \<Rightarrow> jsval \<Rightarrow> jsval \<Rightarrow> jsval \<Rightarrow> response + (jsval \<times> jsval \<times> jsval)" where
  "register_validate fullName' email' password' confirmPassword' =
     (if falsy fullName' \<or> falsy email' \<or> falsy password' \<or> falsy confirmPassword'
      then Inl (fail_response 400 ''All fields are required'')
      else if \<not> strict_equal password' confirmPassword'
      then Inl (fail_response 400 ''Passwords do not match'')
      else if (case password' of Str s \<Rightarrow> length s < 6 | Arr xs \<Rightarrow> length xs < 6 | _ \<Rightarrow> False)
      then Inl (fail_response 400 ''Password must be at least 6 characters'')
      else Inr (fullName', email', password'))"

definition login_validate :: "jsval \<Rightarrow> jsval \<Rightarrow> response + (jsval \<times> jsval)" where
  "login_validate email' password' =
     (if falsy email' \<or> falsy password'
      then Inl (fail_response 400 ''Email and password are required'')
      else Inr (email', password'))"

section \<open>The account service of videoRoutes.js\<close>

subsection \<open>User schema\<close>

text \<open>
  \<^verbatim>\<open>fullName\<close> has the setter \<^verbatim>\<open>trim\<close>, \<^verbatim>\<open>email\<close> the setters \<^verbatim>\<open>lowercase\<close> and
  \<^verbatim>\<open>trim\<close>; \<^verbatim>\<open>createdAt\<close> defaults to the clock reading at construction and
  \<^verbatim>\<open>lastLogin\<close> starts unset. On save each path reports its first failing validator,
  in the order the schema declares the paths.
\<close>

definition new_User_vr :: "int \<Rightarrow> nat \<Rightarrow> string \<Rightarrow> string \<Rightarrow> string \<Rightarrow> user" where
  "new_User_vr now i fullName' email' password' =
     \<lparr>uid = i, fullName = trim fullName', email = trim (toLowerCase email'),
      password = password', createdAt = now, lastLogin = None\<rparr>"

definition validate_fullName_vr :: "string \<Rightarrow> (string \<times> string) list" where
  "validate_fullName_vr v =
     (if v = [] then [(''fullName'', ''Full name is required'')]
      else if length v < 2 then [(''fullName'', ''Name must be at least 2 characters'')]
      else [])"

definition validate_email_vr :: "string \<Rightarrow> (string \<times> string) list" where
  "validate_email_vr v =
     (if v = [] then [(''email'', ''Email is required'')]
      else if match_email v then []
      else [(''email'', ''Please enter a valid email'')])"

definition validate_password_vr :: "string \<Rightarrow> (string \<times> string) list" where
  "validate_password_vr v =
     (if v = [] then [(''password'', ''Password is required'')]
      else if length v < 6 then [(''password'', ''Password must be at least 6 characters'')]
      else [])"

definition validate_vr :: "user \<Rightarrow> (string \<times> string) list" where
  "validate_vr doc =
     validate_fullName_vr (fullName doc) @ validate_email_vr (email doc)
     @ validate_password_vr (password doc)"

definition save_new_vr :: "user \<Rightarrow> user collection \<Rightarrow> js_error + user collection" where
  "save_new_vr doc st =
     (if validate_vr doc = [] then insertOne doc st
      else Inl (validation_error (validate_vr doc)))"

text \<open>
  \<^verbatim>\<open>user.save()\<close> on a document loaded by a query, after the assignment
  \<^verbatim>\<open>user.lastLogin = new Date()\<close>. Mongoose validates the loaded document against the
  schema first, then sends the modified path only, as an update of the document with that
  \<^verbatim>\<open>_id\<close>; when the collection no longer holds such a document the save fails.
\<close>

definition document_not_found_error :: js_error where
  "document_not_found_error =
     \<lparr>code = None, name = ''DocumentNotFoundError'',
      message = ''No document found for query'', errors = []\<rparr>"

definition save_lastLogin :: "user \<Rightarrow> user collection \<Rightarrow> js_error + user collection" where
  "save_lastLogin doc st =
     (if validate_vr doc = []
      then (case st of
              Unavailable m \<Rightarrow> Inl (store_error m)
            | Available docs \<Rightarrow>
                if uid doc \<in> set (map uid docs)
                then Inr (Available (map (\<lambda>u. if uid u = uid doc
                                                then u\<lparr>lastLogin := lastLogin doc\<rparr> else u) docs))
                else Inl document_not_found_error)
      else Inl (validation_error (validate_vr doc)))"

definition User_findOne_vr :: "config \<Rightarrow> string \<Rightarrow> user collection \<Rightarrow> js_error + user option" where
  "User_findOne_vr cfg k st =
     findOne_by_email (if runSettersOnQuery cfg then trim (toLowerCase k) else k) st"

subsection \<open>POST /api/register\<close>

definition dev_error :: "config \<Rightarrow> js_error \<Rightarrow> (string \<times> json) list" where
  "dev_error cfg error =
     (if NODE_ENV cfg = Some ''development'' then [(''error'', JStr (message error))] else [])"

definition register_catch_vr :: "config \<Rightarrow> js_error \<Rightarrow> response" where
  "register_catch_vr cfg error =
     (if code error = Some 11000 then fail_response 400 ''Email already registered''
      else if name error = ''ValidationError''
      then fail_response 400 (join '', '' (map snd (errors error)))
      else \<lparr>status = 500,
            body = JObj ([(''success'', JBool False),
                          (''message'', JStr ''Server error during registration'')]
                         @ dev_error cfg error)\<rparr>)"

definition register_created_vr :: "user \<Rightarrow> response" where
  "register_created_vr newUser =
     \<lparr>status = 201,
      body = JObj [(''success'', JBool True),
                   (''message'', JStr ''Registration successful!''),
                   (''user'', JObj [(''id'', JId (uid newUser)),
                                    (''fullName'', JStr (fullName newUser)),
                                    (''email'', JStr (email newUser)),
                                    (''createdAt'', JDate (createdAt newUser))])]\<rparr>"

text \<open>
  The handler awaits the store twice: the existence query, then the insert. Other
  requests may run in between, so the general form takes the collection as the query
  sees it and the collection as the insert finds it; \<open>register_vr\<close> is the handler
  running alone. The result is the response and the collection afterwards.

  \<^verbatim>\<open>email.toLowerCase()\<close> and \<^verbatim>\<open>fullName.trim()\<close> throw a TypeError on a value that is
  not a string; the latter is evaluated after the existence query. A password that
  Mongoose cannot cast makes the save fail with a validation error that carries the cast
  error in place of the validators of that path.
\<close>

definition register_vr_at ::
  "config \<Rightarrow> int \<Rightarrow> request_body \<Rightarrow> user collection \<Rightarrow> user collection
   \<Rightarrow> response \<times> user collection" where
  "register_vr_at cfg now b st_find st_save =
     (case register_validate (body_fullName b) (body_email b) (body_password b)
             (body_confirmPassword b) of
        Inl r \<Rightarrow> (r, st_save)
      | Inr (fullName', email', password') \<Rightarrow>
          (case email' of
             Str e \<Rightarrow>
               (case User_findOne_vr cfg (toLowerCase e) st_find of
                  Inl error \<Rightarrow> (register_catch_vr cfg error, st_save)
                | Inr (Some existingUser) \<Rightarrow>
                    (fail_response 400 ''User already exists with this email'', st_save)
                | Inr None \<Rightarrow>
                    (case fullName' of
                       Str f \<Rightarrow>
                         (case cast_String cfg password' of
                            Inr p \<Rightarrow>
                              (let newUser = new_User_vr now (ObjectId st_save) (trim f)
                                               (trim (toLowerCase e)) p
                               in case save_new_vr newUser st_save of
                                    Inl error \<Rightarrow> (register_catch_vr cfg error, st_save)
                                  | Inr st' \<Rightarrow> (register_created_vr newUser, st'))
                          | Inl m \<Rightarrow>
                              (register_catch_vr cfg
                                 (validation_error
                                    (validate_fullName_vr (trim (trim f))
                                     @ validate_email_vr (trim (toLowerCase (trim (toLowerCase e))))
                                     @ [(''password'', m)])),
                               st_save))
                     | _ \<Rightarrow>
                         (register_catch_vr cfg (type_error ''fullName.trim is not a function''),
                          st_save)))
           | _ \<Rightarrow>
               (register_catch_vr cfg (type_error ''email.toLowerCase is not a function''),
                st_save)))"

definition register_vr ::
  "config \<Rightarrow> int \<Rightarrow> request_body \<Rightarrow> user collection \<Rightarrow> response \<times> user collection" where
  "register_vr cfg now b st = register_vr_at cfg now b st st"

subsection \<open>POST /api/login\<close>

definition invalid_credentials :: response where
  "invalid_credentials = fail_response 401 ''Invalid email or password''"

definition login_catch_vr :: "config \<Rightarrow> js_error \<Rightarrow> response" where
  "login_catch_vr cfg error =
     \<lparr>status = 500,
      body = JObj ([(''success'', JBool False), (''message'', JStr ''Server error during login'')]
                   @ dev_error cfg error)\<rparr>"

definition login_ok_vr :: "user \<Rightarrow> response" where
  "login_ok_vr u =
     \<lparr>status = 200,
      body = JObj [(''success'', JBool True),
                   (''message'', JStr ''Login successful!''),
                   (''user'', JObj ([(''id'', JId (uid u)),
                                     (''fullName'', JStr (fullName u)),
                                     (''email'', JStr (email u))]
                                    @ (case lastLogin u of None \<Rightarrow> []
                                       | Some t \<Rightarrow> [(''lastLogin'', JDate t)])))]\<rparr>"

text \<open>
  The handler awaits the store twice here too: the lookup, then the save of
  \<^verbatim>\<open>lastLogin\<close>. \<open>login_vr_at\<close> takes the collection as the lookup sees it and as the
  save finds it; \<open>login_vr\<close> is the handler running alone. The stored password is a
  string, so \<^verbatim>\<open>user.password !== password\<close> is false only for the equal string.
\<close>

definition login_vr_at ::
  "config \<Rightarrow> int \<Rightarrow> request_body \<Rightarrow> user collection \<Rightarrow> user collection
   \<Rightarrow> response \<times> user collection" where
  "login_vr_at cfg now b st_find st_save =
     (case login_validate (body_email b) (body_password b) of
        Inl r \<Rightarrow> (r, st_save)
      | Inr (email', password') \<Rightarrow>
          (case email' of
             Str e \<Rightarrow>
               (case User_findOne_vr cfg (toLowerCase e) st_find of
                  Inl error \<Rightarrow> (login_catch_vr cfg error, st_save)
                | Inr None \<Rightarrow> (invalid_credentials, st_save)
                | Inr (Some u) \<Rightarrow>
                    if strict_equal (Str (password u)) password'
                    then (let u' = u\<lparr>lastLogin := Some now\<rparr>
                          in case save_lastLogin u' st_save of
                               Inl error \<Rightarrow> (login_catch_vr cfg error, st_save)
                             | Inr st' \<Rightarrow> (login_ok_vr u', st'))
                    else (invalid_credentials, st_save))
           | _ \<Rightarrow>
               (login_catch_vr cfg (type_error ''email.toLowerCase is not a function''),
                st_save)))"

definition login_vr ::
  "config \<Rightarrow> int \<Rightarrow> request_body \<Rightarrow> user collection \<Rightarrow> response \<times> user collection" where
  "login_vr cfg now b st = login_vr_at cfg now b st st"

section \<open>The account service of server.js\<close>

text \<open>
  The schema of server.js declares \<^verbatim>\<open>fullName\<close>, \<^verbatim>\<open>email\<close> and \<^verbatim>\<open>password\<close> as
  required strings without setters, \<^verbatim>\<open>email\<close> unique, and \<^verbatim>\<open>createdAt\<close> with the
  clock default; it has no \<^verbatim>\<open>lastLogin\<close> path, so that field stays unset. The handlers
  pass the fields of the body to Mongoose as they are, and Mongoose casts them: in the
  filter of \<^verbatim>\<open>User.findOne({ email })\<close> and in \<^verbatim>\<open>new User\<close>.
\<close>

definition User_findOne_srv :: "config \<Rightarrow> jsval \<Rightarrow> user collection \<Rightarrow> js_error + user option" where
  "User_findOne_srv cfg v st =
     (case v of
        Str s \<Rightarrow> findOne_by_email s st
      | Num n \<Rightarrow> findOne_by_email n st
      | Bool b \<Rightarrow> findOne_by_email (if b then ''true'' else ''false'') st
      | _ \<Rightarrow> query_other cfg v st)"

definition new_User_srv :: "int \<Rightarrow> nat \<Rightarrow> string \<Rightarrow> string \<Rightarrow> string \<Rightarrow> user" where
  "new_User_srv now i fullName' email' password' =
     \<lparr>uid = i, fullName = fullName', email = email', password = password',
      createdAt = now, lastLogin = None\<rparr>"

definition required_srv :: "string \<Rightarrow> string \<Rightarrow> (string \<times> string) list" where
  "required_srv path v = (if v = [] then [(path, ''Path `'' @ path @ ''` is required.'')] else [])"

definition validate_srv :: "user \<Rightarrow> (string \<times> string) list" where
  "validate_srv doc =
     required_srv ''fullName'' (fullName doc) @ required_srv ''email'' (email doc)
     @ required_srv ''password'' (password doc)"

definition save_new_srv :: "user \<Rightarrow> user collection \<Rightarrow> js_error + user collection" where
  "save_new_srv doc st =
     (if validate_srv doc = [] then insertOne doc st
      else Inl (validation_error (validate_srv doc)))"

text \<open>
  The errors of a path on save: the cast error when the cast of its value failed, the
  result of its validators otherwise.
\<close>

definition path_errors_srv :: "string \<Rightarrow> string + string \<Rightarrow> (string \<times> string) list" where
  "path_errors_srv path c = (case c of Inl m \<Rightarrow> [(path, m)] | Inr v \<Rightarrow> required_srv path v)"

definition register_catch_srv :: "js_error \<Rightarrow> response" where
  "register_catch_srv error =
     (if code error = Some 11000 then fail_response 400 ''Email already registered''
      else \<lparr>status = 500,
            body = JObj [(''success'', JBool False),
                         (''message'', JStr ''Server error during registration''),
                         (''error'', JStr (message error))]\<rparr>)"

definition register_created_srv :: "user \<Rightarrow> response" where
  "register_created_srv newUser =
     \<lparr>status = 201,
      body = JObj [(''success'', JBool True),
                   (''message'', JStr ''Registration successful!''),
                   (''user'', JObj [(''id'', JId (uid newUser)),
                                    (''fullName'', JStr (fullName newUser)),
                                    (''email'', JStr (email newUser))])]\<rparr>"

definition register_srv_at ::
  "config \<Rightarrow> int \<Rightarrow> request_body \<Rightarrow> user collection \<Rightarrow> user collection
   \<Rightarrow> response \<times> user collection" where
  "register_srv_at cfg now b st_find st_save =
     (case register_validate (body_fullName b) (body_email b) (body_password b)
             (body_confirmPassword b) of
        Inl r \<Rightarrow> (r, st_save)
      | Inr (fullName', email', password') \<Rightarrow>
          (case User_findOne_srv cfg email' st_find of
             Inl error \<Rightarrow> (register_catch_srv error, st_save)
           | Inr (Some existingUser) \<Rightarrow>
               (fail_response 400 ''User already exists with this email'', st_save)
           | Inr None \<Rightarrow>
               (case (cast_String cfg fullName', cast_String cfg email',
                      cast_String cfg password') of
                  (Inr f, Inr e, Inr p) \<Rightarrow>
                    (let newUser = new_User_srv now (ObjectId st_save) f e p
                     in case save_new_srv newUser st_save of
                          Inl error \<Rightarrow> (register_catch_srv error, st_save)
                        | Inr st' \<Rightarrow> (register_created_srv newUser, st'))
                | (cf, ce, cp) \<Rightarrow>
                    (register_catch_srv
                       (validation_error
                          (path_errors_srv ''fullName'' cf @ path_errors_srv ''email'' ce
                           @ path_errors_srv ''password'' cp)),
                     st_save))))"

definition register_srv ::
  "config \<Rightarrow> int \<Rightarrow> request_body \<Rightarrow> user collection \<Rightarrow> response \<times> user collection" where
  "register_srv cfg now b st = register_srv_at cfg now b st st"

definition login_catch_srv :: "js_error \<Rightarrow> response" where
  "login_catch_srv error =
     \<lparr>status = 500,
      body = JObj [(''success'', JBool False),
                   (''message'', JStr ''Server error during login''),
                   (''error'', JStr (message error))]\<rparr>"

definition login_ok_srv :: "user \<Rightarrow> response" where
  "login_ok_srv u =
     \<lparr>status = 200,
      body = JObj [(''success'', JBool True),
                   (''message'', JStr ''Login successful!''),
                   (''user'', JObj [(''id'', JId (uid u)),
                                    (''fullName'', JStr (fullName u)),
                                    (''email'', JStr (email u))])]\<rparr>"

definition login_srv ::
  "config \<Rightarrow> request_body \<Rightarrow> user collection \<Rightarrow> response \<times> user collection" where
  "login_srv cfg b st =
     (case login_validate (body_email b) (body_password b) of
        Inl r \<Rightarrow> (r, st)
      | Inr (email', password') \<Rightarrow>
          (case User_findOne_srv cfg email' st of
             Inl error \<Rightarrow> (login_catch_srv error, st)
           | Inr None \<Rightarrow> (invalid_credentials, st)
           | Inr (Some u) \<Rightarrow>
               if strict_equal (Str (password u)) password'
               then (login_ok_srv u, st)
               else (invalid_credentials, st)))"

section \<open>Status reporting and request gating (videoRoutes.js)\<close>

text \<open>
  \<^verbatim>\<open>mongoose.connection\<close> as the handlers read it: the numeric \<^verbatim>\<open>readyState\<close> and the
  host and database name of the link.
\<close>

record connection =
  readyState :: int
  host :: string
  db_name :: string

definition getDBStatusText :: "int \<Rightarrow> string" where
  "getDBStatusText st =
     (if st = 0 then ''disconnected''
      else if st = 1 then ''connected''
      else if st = 2 then ''connecting''
      else if st = 3 then ''disconnecting''
      else ''unknown'')"

text \<open>
  \<^verbatim>\<open>GET /api/health\<close>. The \<^verbatim>\<open>server\<close> entry of the response (process uptime, memory
  usage and a timestamp) does not depend on the connection and is left out of the model.
\<close>

definition health :: "config \<Rightarrow> connection \<Rightarrow> response" where
  "health cfg conn =
     (let dbStatus = readyState conn;
          isConnected = (dbStatus = 1)
      in \<lparr>status = 200,
          body = JObj [(''status'', JStr (if isConnected then ''Healthy'' else ''Unhealthy'')),
                       (''service'', JStr ''E-Siksha Backend API''),
                       (''version'', JStr ''1.0.0''),
                       (''database'',
                          JObj [(''status'', JStr (getDBStatusText dbStatus)),
                                (''connected'', JBool isConnected),
                                (''host'', if isConnected then JStr (host conn) else JNull),
                                (''name'', if isConnected then JStr (db_name conn) else JNull)]),
                       (''environment'',
                          JStr (case NODE_ENV cfg of None \<Rightarrow> ''development''
                                | Some e \<Rightarrow> if e = [] then ''development'' else e))]\<rparr>)"

text \<open>
  The database status middleware, registered before every route: it either answers the
  request itself or calls \<^verbatim>\<open>next()\<close>.
\<close>

datatype middleware_result = Respond response | Next

definition dbStatusMiddleware :: "int \<Rightarrow> string \<Rightarrow> middleware_result" where
  "dbStatusMiddleware dbStatus method =
     (if dbStatus \<noteq> 1
      then (if method \<noteq> ''GET''
            then Respond \<lparr>status = 503,
                          body = JObj [(''success'', JBool False),
                                       (''message'',
                                          JStr ''Database temporarily unavailable. Please try again.''),
                                       (''databaseStatus'', JStr (getDBStatusText dbStatus))]\<rparr>
            else Next)
      else Next)"

text \<open>
  A route behind the middleware: the handler (any function from the state of the world to
  a response and the state afterwards) runs only when the middleware calls \<^verbatim>\<open>next()\<close>.
\<close>

definition gated ::
  "connection \<Rightarrow> string \<Rightarrow> ('w \<Rightarrow> response \<times> 'w) \<Rightarrow> 'w \<Rightarrow> response \<times> 'w" where
  "gated conn method handler w =
     (case dbStatusMiddleware (readyState conn) method of
        Respond r \<Rightarrow> (r, w)
      | Next \<Rightarrow> handler w)"

section \<open>Content lookup (the router of videoRoutes.js)\<close>

record video =
  vid :: nat
  title :: "string option"
  videoUrl :: "string option"

definition video_json :: "video \<Rightarrow> json" where
  "video_json v =
     JObj ([(''_id'', JId (vid v))]
           @ (case title v of None \<Rightarrow> [] | Some t \<Rightarrow> [(''title'', JStr t)])
           @ (case videoUrl v of None \<Rightarrow> [] | Some l \<Rightarrow> [(''videoUrl'', JStr l)]))"

text \<open>
  \<^verbatim>\<open>Video.findOne().sort({ _id: -1 })\<close>: the first document of the collection sorted by
  descending \<^verbatim>\<open>_id\<close>, or null when there is none.
\<close>

definition findOne_sort_id_desc :: "video collection \<Rightarrow> js_error + video option" where
  "findOne_sort_id_desc st =
     (case st of
        Unavailable m \<Rightarrow> Inl (store_error m)
      | Available docs \<Rightarrow>
          Inr (case sort_key (\<lambda>v. - int (vid v)) docs of [] \<Rightarrow> None | v # rest \<Rightarrow> Some v))"

definition get_video :: "video collection \<Rightarrow> response" where
  "get_video st =
     (case findOne_sort_id_desc st of
        Inl err \<Rightarrow> \<lparr>status = 500, body = JObj [(''error'', JStr (message err))]\<rparr>
      | Inr None \<Rightarrow> \<lparr>status = 200, body = JNull\<rparr>
      | Inr (Some v) \<Rightarrow> \<lparr>status = 200, body = video_json v\<rparr>)"

section \<open>What a response says\<close>




section \<open>Sample data\<close>

text \<open>
  A configuration, an account and request bodies used to run the handlers on concrete
  inputs.
\<close>

definition sample_config :: config where
  "sample_config =
     \<lparr>NODE_ENV = None, runSettersOnQuery = False,
      cast_other = (\<lambda>v. Inl ''Cast to string failed''),
      query_other = (\<lambda>v st. Inl (store_error ''Cast to string failed''))\<rparr>"

definition asha :: user where
  "asha = \<lparr>uid = 1, fullName = ''Asha Rao'', email = ''asha@example.com'',
           password = ''secret1'', createdAt = 1000, lastLogin = None\<rparr>"

definition registration :: "string \<Rightarrow> string \<Rightarrow> string \<Rightarrow> string \<Rightarrow> request_body" where
  "registration f e p c =
     \<lparr>body_fullName = Str f, body_email = Str e, body_password = Str p,
      body_confirmPassword = Str c\<rparr>"

definition credentials :: "string \<Rightarrow> string \<Rightarrow> request_body" where
  "credentials e p =
     \<lparr>body_fullName = Undefined, body_email = Str e, body_password = Str p,
      body_confirmPassword = Undefined\<rparr>"

definition down :: connection where
  "down = \<lparr>readyState = 0, host = ''localhost'', db_name = ''esiksha''\<rparr>"

section \<open>Facts about strings\<close>

lemmas js_eval = toLowerCase_def char_toLowerCase_def char_of_def bit_Suc_0_iff
  trim_def trimStart_def js_whitespace_def match_nonspace_plus_end_def

lemma char_toLowerCase_idem: "char_toLowerCase (char_toLowerCase c) = char_toLowerCase c"
proof -
  have "of_char (char_of (of_char c + 32 :: nat)) = (of_char c + 32 :: nat)"
    if "(of_char c :: nat) \<le> 222" 
    using that by simp
  then show ?thesis
    by (auto simp: char_toLowerCase_def Let_def)
qed

lemma js_whitespace_toLowerCase: "js_whitespace (char_toLowerCase c) = js_whitespace c"
proof -
  have "of_char (char_of (of_char c + 32 :: nat)) = (of_char c + 32 :: nat)"
    if "(of_char c :: nat) \<le> 222" 
    using that by simp
  then show ?thesis
    by (auto simp: char_toLowerCase_def js_whitespace_def Let_def)
qed

lemma toLowerCase_idem: "toLowerCase (toLowerCase s) = toLowerCase s"
  by (simp add: toLowerCase_def char_toLowerCase_idem)

lemma toLowerCase_trimStart: "toLowerCase (trimStart s) = trimStart (toLowerCase s)"
  by (induction s) (simp_all add: toLowerCase_def trimStart_def js_whitespace_toLowerCase)

lemma toLowerCase_rev: "toLowerCase (rev s) = rev (toLowerCase s)"
  by (simp add: toLowerCase_def rev_map)

lemma toLowerCase_trim: "toLowerCase (trim s) = trim (toLowerCase s)"
  by (simp add: trim_def toLowerCase_trimStart toLowerCase_rev)

lemma dropWhile_rev_dropWhile:
  assumes "a = [] \<or> \<not> P (hd a)"
  shows "dropWhile P (rev (dropWhile P (rev a))) = rev (dropWhile P (rev a))"
proof (cases "rev (dropWhile P (rev a))")
  case Nil
  show ?thesis unfolding Nil by simp
next
  case (Cons x xs)
  have "a = rev (dropWhile P (rev a)) @ rev (takeWhile P (rev a))"
    by (metis rev_append rev_rev_ident takeWhile_dropWhile_id)
  with Cons have "hd a = x" "a \<noteq> []"
    by (metis append_Cons list.sel(1), metis append_is_Nil_conv list.distinct(1))
  with assms have "\<not> P x" by simp
  then show ?thesis unfolding Cons by simp
qed

lemma trim_idem: "trim (trim s) = trim s"
proof -
  let ?a = "trimStart s"
  have "?a = [] \<or> \<not> js_whitespace (hd ?a)"
    unfolding trimStart_def by (metis hd_dropWhile)
  then have "trimStart (trim s) = trim s"
    unfolding trim_def trimStart_def by (rule dropWhile_rev_dropWhile)
  then show ?thesis
    by (simp add: trim_def trimStart_def)
qed



section \<open>Facts about request validation\<close>

lemma register_validate_Inr:
  assumes "register_validate F E P C = Inr (Str f, Str e, Str p)"
  shows "F = Str f \<and> E = Str e \<and> P = Str p \<and> C = Str p
         \<and> f \<noteq> [] \<and> e \<noteq> [] \<and> p \<noteq> [] \<and> 6 \<le> length p"
proof -
  from assms have F: "F = Str f" and E: "E = Str e" and P: "P = Str p"
    by (auto simp: register_validate_def split: if_splits)
  from assms have "strict_equal P C" and "\<not> falsy F" and "\<not> falsy E" and "\<not> falsy P"
    and "\<not> length p < 6"
    by (auto simp: register_validate_def P split: if_splits)
  then show ?thesis
    using F E P by (cases C) auto
qed

lemma register_validate_Inl:
  assumes "register_validate F E P C = Inl r"
  shows "r \<in> set [fail_response 400 ''All fields are required'',
                   fail_response 400 ''Passwords do not match'',
                   fail_response 400 ''Password must be at least 6 characters'']"
  using assms by (auto simp: register_validate_def split: if_splits)

lemma register_validate_reject:
  assumes "falsy F \<or> falsy E \<or> falsy P \<or> falsy C \<or> \<not> strict_equal P C
           \<or> (\<exists>x. P = Str x \<and> length x < 6)"
  shows "\<exists>r. register_validate F E P C = Inl r"
  using assms by (auto simp: register_validate_def)

lemma register_validate_password:
  assumes "register_validate F E P C = Inr (F', E', P')"
  shows "(\<exists>s. P' = Str s \<and> 6 \<le> length s) \<or> (\<exists>n. P' = Num n) \<or> P' = Bool True"
proof -
  from assms have P: "P' = P" and eq: "strict_equal P C" and t: "\<not> falsy P"
    and len: "\<not> (case P of Str s \<Rightarrow> length s < 6 | Arr xs \<Rightarrow> length xs < 6 | _ \<Rightarrow> False)"
    by (auto simp: register_validate_def split: if_splits)
  from eq t len show ?thesis
    unfolding P by (cases P; cases C) auto
qed

section \<open>Registration rejects malformed requests\<close>

text \<open>
  Claim C2. A registration request in which one of \<^verbatim>\<open>fullName\<close>, \<^verbatim>\<open>email\<close>,
  \<^verbatim>\<open>password\<close>, \<^verbatim>\<open>confirmPassword\<close> is absent, empty or otherwise falsy, or in which
  the password is not \<^verbatim>\<open>===\<close> its confirmation, or is a string of fewer than 6
  characters, is answered with one of the three validation responses, all of status 400,
  and the collection is left as it was: no account is created. This holds whatever the
  existence query would have seen, and server.js answers the same way.
\<close>

theorem register_rejects_invalid_input:
  assumes "falsy (body_fullName b) \<or> falsy (body_email b) \<or> falsy (body_password b)
           \<or> falsy (body_confirmPassword b)
           \<or> \<not> strict_equal (body_password b) (body_confirmPassword b)
           \<or> (\<exists>p. body_password b = Str p \<and> length p < 6)"
  shows "fst (register_vr_at cfg now b st_find st)
           \<in> set [fail_response 400 ''All fields are required'',
                   fail_response 400 ''Passwords do not match'',
                   fail_response 400 ''Password must be at least 6 characters'']
         \<and> status (fst (register_vr_at cfg now b st_find st)) = 400
         \<and> snd (register_vr_at cfg now b st_find st) = st
         \<and> register_srv_at cfg now b st_find st = register_vr_at cfg now b st_find st"
proof -
  obtain r where r: "register_validate (body_fullName b) (body_email b) (body_password b)
      (body_confirmPassword b) = Inl r"
    using register_validate_reject [OF assms] by blast
  then have vr: "register_vr_at cfg now b st_find st = (r, st)"
    and srv: "register_srv_at cfg now b st_find st = (r, st)"
    by (simp_all add: register_vr_at_def register_srv_at_def)
  have "r \<in> set [fail_response 400 ''All fields are required'',
                   fail_response 400 ''Passwords do not match'',
                   fail_response 400 ''Password must be at least 6 characters'']"
    using register_validate_Inl [OF r] .
  moreover from this have "status r = 400"
    by (auto simp: fail_response_def)
  ultimately show ?thesis
    by (simp add: vr srv)
qed

theorem register_rejects_invalid_input_witness:
  "\<not> strict_equal (body_password (registration ''Asha Rao'' ''asha@example.com'' ''secret1'' ''secret2''))
       (body_confirmPassword (registration ''Asha Rao'' ''asha@example.com'' ''secret1'' ''secret2''))
   \<and> register_vr_at sample_config 1000
        (registration ''Asha Rao'' ''asha@example.com'' ''secret1'' ''secret2'')
        (Available []) (Available [])
       = (fail_response 400 ''Passwords do not match'', Available [])
   \<and> status (fst (register_vr_at sample_config 1000
        (registration ''Asha Rao'' ''asha@example.com'' ''secret1'' ''secret2'')
        (Available []) (Available []))) = 400
   \<and> falsy (body_confirmPassword \<lparr>body_fullName = Str ''Asha Rao'', body_email = Str ''asha@example.com'',
         body_password = Num ''12345'', body_confirmPassword = Null\<rparr>)
   \<and> register_vr_at sample_config 1000
        \<lparr>body_fullName = Str ''Asha Rao'', body_email = Str ''asha@example.com'',
         body_password = Num ''12345'', body_confirmPassword = Null\<rparr>
        (Available []) (Available [])
       = (fail_response 400 ''All fields are required'', Available [])"
  using register_rejects_invalid_input [of
      "registration ''Asha Rao'' ''asha@example.com'' ''secret1'' ''secret2''"
      sample_config 1000 "Available []" "Available []"]
    register_rejects_invalid_input [of
      "\<lparr>body_fullName = Str ''Asha Rao'', body_email = Str ''asha@example.com'',
         body_password = Num ''12345'', body_confirmPassword = Null\<rparr>"
      sample_config 1000 "Available []" "Available []"]
  by (simp add: register_vr_at_def registration_def register_validate_def)


section \<open>Status reporting\<close>

text \<open>
  Claim C7. For every value of \<^verbatim>\<open>readyState\<close> the status text is defined; it is
  \<^verbatim>\<open>connected\<close> exactly when the state is 1; the states 0, 2 and 3 give
  \<^verbatim>\<open>disconnected\<close>, \<^verbatim>\<open>connecting\<close> and \<^verbatim>\<open>disconnecting\<close>; every other state gives
  \<^verbatim>\<open>unknown\<close>. The health endpoint always answers 200 and reports this text and the
  flag \<^verbatim>\<open>connected\<close>, which is true exactly in state 1. The handler is a function of
  the connection and the configuration alone and returns nothing but the response, so it
  changes no state.
\<close>

theorem getDBStatusText_labels:
  "(getDBStatusText st = ''connected'') = (st = 1)
   \<and> getDBStatusText 0 = ''disconnected''
   \<and> getDBStatusText 2 = ''connecting''
   \<and> getDBStatusText 3 = ''disconnecting''
   \<and> (st \<notin> {0, 1, 2, 3} \<longrightarrow> getDBStatusText st = ''unknown'')
   \<and> status (health cfg conn) = 200
   \<and> json_get ''database'' (body (health cfg conn))
       = Some (JObj [(''status'', JStr (getDBStatusText (readyState conn))),
                     (''connected'', JBool (readyState conn = 1)),
                     (''host'', if readyState conn = 1 then JStr (host conn) else JNull),
                     (''name'', if readyState conn = 1 then JStr (db_name conn) else JNull)])"
  by (simp add: getDBStatusText_def health_def json_get_def Let_def)

theorem getDBStatusText_labels_witness:
  "(99::int) \<notin> {0, 1, 2, 3} \<and> getDBStatusText 99 = ''unknown''
   \<and> getDBStatusText 1 = ''connected''
   \<and> json_get ''database''
        (body (health sample_config
                 \<lparr>readyState = 99, host = ''h'', db_name = ''esiksha''\<rparr>))
       = Some (JObj [(''status'', JStr ''unknown''), (''connected'', JBool False),
                     (''host'', JNull), (''name'', JNull)])"
  using getDBStatusText_labels [of 99 "sample_config"
      "\<lparr>readyState = 99, host = ''h'', db_name = ''esiksha''\<rparr>"]
    getDBStatusText_labels [of 1]
  by simp

section \<open>Request gating\<close>

text \<open>
  Claim C9. While \<^verbatim>\<open>readyState\<close> is not 1, the database status middleware answers
  every request whose method is not \<^verbatim>\<open>GET\<close> with status 503, whatever handler the
  route has: the handler is not run and the state is untouched. A \<^verbatim>\<open>GET\<close> request is
  passed on, and the outcome is the handler's own (which may be a failure of its own).
\<close>

theorem gate_blocks_non_get:
  assumes "readyState conn \<noteq> 1"
  shows "(method \<noteq> ''GET'' \<longrightarrow>
            dbStatusMiddleware (readyState conn) method
              = Respond \<lparr>status = 503,
                  body = JObj [(''success'', JBool False),
                               (''message'', JStr ''Database temporarily unavailable. Please try again.''),
                               (''databaseStatus'', JStr (getDBStatusText (readyState conn)))]\<rparr>
            \<and> gated conn method handler w
              = (\<lparr>status = 503,
                  body = JObj [(''success'', JBool False),
                               (''message'', JStr ''Database temporarily unavailable. Please try again.''),
                               (''databaseStatus'', JStr (getDBStatusText (readyState conn)))]\<rparr>, w))
         \<and> (method = ''GET'' \<longrightarrow>
              dbStatusMiddleware (readyState conn) method = Next
              \<and> gated conn method handler w = handler w)"
  using assms by (simp add: gated_def dbStatusMiddleware_def)

theorem gate_blocks_non_get_witness:
  "readyState down \<noteq> 1
   \<and> ''POST'' \<noteq> ''GET''
   \<and> gated down ''POST''
        (register_vr sample_config 1000
           (registration ''Asha Rao'' ''asha@example.com'' ''secret1'' ''secret1''))
        (Available [])
       = (\<lparr>status = 503,
           body = JObj [(''success'', JBool False),
                        (''message'', JStr ''Database temporarily unavailable. Please try again.''),
                        (''databaseStatus'', JStr ''disconnected'')]\<rparr>, Available [])
   \<and> gated down ''GET'' (\<lambda>st. (get_video st, st)) (Unavailable ''buffering timed out'')
       = (\<lparr>status = 500, body = JObj [(''error'', JStr ''buffering timed out'')]\<rparr>,
          Unavailable ''buffering timed out'')"
  using gate_blocks_non_get [of down "''POST''"
      "register_vr sample_config 1000
           (registration ''Asha Rao'' ''asha@example.com'' ''secret1'' ''secret1'')"
      "Available []"]
    gate_blocks_non_get [of down "''GET''" "\<lambda>st. (get_video st, st)"
      "Unavailable ''buffering timed out''"]
  by (simp add: down_def getDBStatusText_def get_video_def findOne_sort_id_desc_def store_error_def)

section \<open>Login failures\<close>

text \<open>
  Claim C3. Take two login requests that both carry an email, as a string, and a
  password. If the first names an email under which the lookup finds no account, and the
  second an email under which it finds an account whose stored password is not \<^verbatim>\<open>===\<close>
  the one supplied, then both are answered with the same response: status 401 and the
  message \<^verbatim>\<open>Invalid email or password\<close>, and neither changes the collection. This holds
  for the handler of videoRoutes.js and for the handler of server.js.
\<close>

theorem login_failures_indistinguishable:
  assumes "body_email b1 = Str e1" and "e1 \<noteq> []" and "\<not> falsy (body_password b1)"
    and "body_email b2 = Str e2" and "e2 \<noteq> []" and "\<not> falsy (body_password b2)"
  shows "(User_findOne_vr cfg (toLowerCase e1) st1 = Inr None
          \<and> User_findOne_vr cfg (toLowerCase e2) st2 = Inr (Some u)
          \<and> \<not> strict_equal (Str (password u)) (body_password b2)
          \<longrightarrow> login_vr cfg t1 b1 st1 = (fail_response 401 ''Invalid email or password'', st1)
              \<and> login_vr cfg t2 b2 st2 = (fail_response 401 ''Invalid email or password'', st2))
         \<and> (findOne_by_email e1 st1 = Inr None
             \<and> findOne_by_email e2 st2 = Inr (Some u)
             \<and> \<not> strict_equal (Str (password u)) (body_password b2)
             \<longrightarrow> login_srv cfg b1 st1 = (fail_response 401 ''Invalid email or password'', st1)
                 \<and> login_srv cfg b2 st2 = (fail_response 401 ''Invalid email or password'', st2))"
  using assms
  by (simp add: login_vr_def login_vr_at_def login_srv_def login_validate_def
      User_findOne_srv_def invalid_credentials_def)

theorem login_failures_indistinguishable_witness:
  "User_findOne_vr sample_config (toLowerCase ''nobody@example.com'') (Available [asha]) = Inr None
   \<and> User_findOne_vr sample_config (toLowerCase ''asha@example.com'') (Available [asha]) = Inr (Some asha)
   \<and> findOne_by_email ''nobody@example.com'' (Available [asha]) = Inr None
   \<and> findOne_by_email ''asha@example.com'' (Available [asha]) = Inr (Some asha)
   \<and> \<not> strict_equal (Str (password asha)) (Str ''guess99'')
   \<and> login_vr sample_config 2000 (credentials ''nobody@example.com'' ''secret1'') (Available [asha])
       = (fail_response 401 ''Invalid email or password'', Available [asha])
   \<and> login_vr sample_config 2000 (credentials ''asha@example.com'' ''guess99'') (Available [asha])
       = (fail_response 401 ''Invalid email or password'', Available [asha])
   \<and> login_srv sample_config (credentials ''nobody@example.com'' ''secret1'') (Available [asha])
       = (fail_response 401 ''Invalid email or password'', Available [asha])
   \<and> login_srv sample_config (credentials ''asha@example.com'' ''guess99'') (Available [asha])
       = (fail_response 401 ''Invalid email or password'', Available [asha])"
proof -
  let ?b1 = "credentials ''nobody@example.com'' ''secret1''"
  let ?b2 = "credentials ''asha@example.com'' ''guess99''"
  have b: "body_email ?b1 = Str ''nobody@example.com''" "''nobody@example.com'' \<noteq> []"
    "\<not> falsy (body_password ?b1)"
    "body_email ?b2 = Str ''asha@example.com''" "''asha@example.com'' \<noteq> []"
    "\<not> falsy (body_password ?b2)"
    by (simp_all add: credentials_def)
  have find: "User_findOne_vr sample_config (toLowerCase ''nobody@example.com'') (Available [asha]) = Inr None
      \<and> User_findOne_vr sample_config (toLowerCase ''asha@example.com'') (Available [asha]) = Inr (Some asha)
      \<and> \<not> strict_equal (Str (password asha)) (body_password ?b2)"
    "findOne_by_email ''nobody@example.com'' (Available [asha]) = Inr None
      \<and> findOne_by_email ''asha@example.com'' (Available [asha]) = Inr (Some asha)
      \<and> \<not> strict_equal (Str (password asha)) (body_password ?b2)"
    by (simp_all add: User_findOne_vr_def findOne_by_email_def sample_config_def asha_def
        credentials_def js_eval)
  have pw: "\<not> strict_equal (Str (password asha)) (Str ''guess99'')"
    by (simp add: asha_def)
  from login_failures_indistinguishable [OF b, of sample_config "Available [asha]"
      "Available [asha]" asha 2000 2000] find pw
  show ?thesis by blast
qed

section \<open>Login writes nothing but lastLogin\<close>

text \<open>
  Claim C10. Whatever the login handler of videoRoutes.js does to a reachable collection,
  the collection afterwards holds the same accounts in the same order, each with its
  \<^verbatim>\<open>_id\<close>, \<^verbatim>\<open>fullName\<close>, \<^verbatim>\<open>email\<close>, \<^verbatim>\<open>password\<close> and \<^verbatim>\<open>createdAt\<close> unchanged: only
  \<^verbatim>\<open>lastLogin\<close> can differ. In particular this holds for every successful login, and it
  holds as well when other requests have changed the collection between the lookup and
  the save.
\<close>

theorem login_only_writes_lastLogin:
  "(\<exists>docs'. snd (login_vr cfg now b (Available docs)) = Available docs'
      \<and> list_all2 (\<lambda>u u'. uid u' = uid u \<and> fullName u' = fullName u \<and> email u' = email u
                     \<and> password u' = password u \<and> createdAt u' = createdAt u) docs docs')
   \<and> (\<exists>docs'. snd (login_vr_at cfg now b st_find (Available docs)) = Available docs'
        \<and> list_all2 (\<lambda>u u'. uid u' = uid u \<and> fullName u' = fullName u \<and> email u' = email u
                       \<and> password u' = password u \<and> createdAt u' = createdAt u) docs docs')"
proof -
  have same: "list_all2 (\<lambda>u u'. uid u' = uid u \<and> fullName u' = fullName u \<and> email u' = email u
                    \<and> password u' = password u \<and> createdAt u' = createdAt u) docs docs"
    by (simp add: list_all2_same)
  have upd: "list_all2 (\<lambda>u u'. uid u' = uid u \<and> fullName u' = fullName u \<and> email u' = email u
                    \<and> password u' = password u \<and> createdAt u' = createdAt u) docs
               (map (\<lambda>u. if uid u = i then u\<lparr>lastLogin := t\<rparr> else u) docs)" for i t
    by (simp add: list_all2_map2 list_all2_same)
  have at: "\<exists>docs'. snd (login_vr_at cfg now b st (Available docs)) = Available docs'
        \<and> list_all2 (\<lambda>u u'. uid u' = uid u \<and> fullName u' = fullName u \<and> email u' = email u
                       \<and> password u' = password u \<and> createdAt u' = createdAt u) docs docs'" for st
    using same upd
    by (auto simp: login_vr_at_def save_lastLogin_def Let_def
        split: sum.splits option.splits prod.splits jsval.splits if_splits)
  from at [of "Available docs"] at [of st_find] show ?thesis
    by (simp only: login_vr_def)
qed


theorem login_only_writes_lastLogin_witness:
  "login_vr sample_config 2000 (credentials ''asha@example.com'' ''secret1'') (Available [asha])
     = (login_ok_vr (asha\<lparr>lastLogin := Some 2000\<rparr>), Available [asha\<lparr>lastLogin := Some 2000\<rparr>])
   \<and> (\<exists>docs'. snd (login_vr sample_config 2000 (credentials ''asha@example.com'' ''secret1'')
                     (Available [asha])) = Available docs'
         \<and> list_all2 (\<lambda>u u'. uid u' = uid u \<and> fullName u' = fullName u \<and> email u' = email u
                        \<and> password u' = password u \<and> createdAt u' = createdAt u) [asha] docs')"
proof -
  have "login_vr sample_config 2000 (credentials ''asha@example.com'' ''secret1'') (Available [asha])
     = (login_ok_vr (asha\<lparr>lastLogin := Some 2000\<rparr>), Available [asha\<lparr>lastLogin := Some 2000\<rparr>])"
    by (simp add: login_vr_def login_vr_at_def login_validate_def credentials_def
        User_findOne_vr_def findOne_by_email_def sample_config_def asha_def save_lastLogin_def
        validate_vr_def validate_fullName_vr_def validate_email_vr_def validate_password_vr_def
        Let_def js_eval)
  then show ?thesis
    using login_only_writes_lastLogin [of sample_config 2000
        "credentials ''asha@example.com'' ''secret1''" "[asha]" "Available [asha]"]
    by simp
qed


section \<open>Content lookup\<close>

lemma sort_key_head:
  assumes "sort_key f xs = v # rest"
  shows "v \<in> set xs \<and> (\<forall>u\<in>set xs. f v \<le> f u)"
proof -
  have "set (sort_key f xs) = set xs" by simp
  with assms have mem: "set xs = insert v (set rest)" by simp
  have "sorted (map f (sort_key f xs))" by (rule sorted_sort_key)
  with assms have "\<forall>u\<in>set rest. f v \<le> f u" by simp
  with mem show ?thesis by auto
qed

text \<open>
  Claim C8. On an empty collection \<^verbatim>\<open>GET /video\<close> answers 200 with \<^verbatim>\<open>null\<close>, not an
  error. On a non-empty collection it answers 200 with one of the stored items, whose
  identifier is greater than or equal to every identifier in the collection; identifiers
  being distinct, as the store keeps them, every other item has a strictly smaller one.
  With the items of identifiers 1 and 2 the answer is the item of identifier 2.
\<close>

theorem get_video_latest:
  "get_video (Available []) = \<lparr>status = 200, body = JNull\<rparr>
   \<and> (docs \<noteq> [] \<longrightarrow>
        (\<exists>v\<in>set docs. get_video (Available docs) = \<lparr>status = 200, body = video_json v\<rparr>
           \<and> (\<forall>u\<in>set docs. vid u \<le> vid v)
           \<and> (distinct (map vid docs) \<longrightarrow> (\<forall>u\<in>set docs. u \<noteq> v \<longrightarrow> vid u < vid v))))"
proof (intro conjI impI)
  show "get_video (Available []) = \<lparr>status = 200, body = JNull\<rparr>"
    by (simp add: get_video_def findOne_sort_id_desc_def)
next
  assume ne: "docs \<noteq> []"
  let ?f = "\<lambda>v. - int (vid v)"
  have "sort_key ?f docs \<noteq> []"
    using ne by (metis length_sort length_0_conv)
  then obtain v rest where s: "sort_key ?f docs = v # rest"
    by (cases "sort_key ?f docs") auto
  from sort_key_head [OF s] have v: "v \<in> set docs" and mx: "\<forall>u\<in>set docs. vid u \<le> vid v"
    by auto
  have resp: "get_video (Available docs) = \<lparr>status = 200, body = video_json v\<rparr>"
    by (simp add: get_video_def findOne_sort_id_desc_def s)
  have uniq: "\<forall>u\<in>set docs. u \<noteq> v \<longrightarrow> vid u < vid v" if d: "distinct (map vid docs)"
  proof (intro ballI impI)
    fix u assume u: "u \<in> set docs" and "u \<noteq> v"
    with d v have "vid u \<noteq> vid v"
      by (meson distinct_map inj_onD)
    with mx u show "vid u < vid v" by (simp add: le_neq_implies_less)
  qed
  show "\<exists>v\<in>set docs. get_video (Available docs) = \<lparr>status = 200, body = video_json v\<rparr>
           \<and> (\<forall>u\<in>set docs. vid u \<le> vid v)
           \<and> (distinct (map vid docs) \<longrightarrow> (\<forall>u\<in>set docs. u \<noteq> v \<longrightarrow> vid u < vid v))"
    using v resp mx uniq by blast
qed

theorem get_video_latest_witness:
  "[\<lparr>vid = 1, title = Some ''Intro'', videoUrl = None\<rparr>,
    \<lparr>vid = 2, title = Some ''Lesson'', videoUrl = Some ''https://example.com/v.mp4''\<rparr>] \<noteq> []
   \<and> get_video (Available [\<lparr>vid = 1, title = Some ''Intro'', videoUrl = None\<rparr>,
        \<lparr>vid = 2, title = Some ''Lesson'', videoUrl = Some ''https://example.com/v.mp4''\<rparr>])
       = \<lparr>status = 200,
          body = JObj [(''_id'', JId 2), (''title'', JStr ''Lesson''),
                       (''videoUrl'', JStr ''https://example.com/v.mp4'')]\<rparr>
   \<and> get_video (Available []) = \<lparr>status = 200, body = JNull\<rparr>"
  using get_video_latest [of "[\<lparr>vid = 1, title = Some ''Intro'', videoUrl = None\<rparr>,
    \<lparr>vid = 2, title = Some ''Lesson'', videoUrl = Some ''https://example.com/v.mp4''\<rparr>]"]
  by (auto simp: video_json_def)

section \<open>Facts about saving a new account\<close>

lemma new_User_vr_fields:
  "new_User_vr now i (trim f) (trim (toLowerCase e)) p
     = \<lparr>uid = i, fullName = trim f, email = trim (toLowerCase e), password = p,
        createdAt = now, lastLogin = None\<rparr>"
  by (simp add: new_User_vr_def trim_idem toLowerCase_trim toLowerCase_idem)

lemma match_email_nonempty: "match_email s \<Longrightarrow> s \<noteq> []"
  by (cases s) simp_all

lemma validate_vr_ok:
  assumes "2 \<le> length (trim f)" and "match_email (trim (toLowerCase e))" and "6 \<le> length p"
  shows "validate_vr (new_User_vr now i (trim f) (trim (toLowerCase e)) p) = []"
proof -
  have "trim f \<noteq> []" "p \<noteq> []" using assms(1,3) by auto
  moreover have "trim (toLowerCase e) \<noteq> []" using assms(2) by (rule match_email_nonempty)
  ultimately show ?thesis
    using assms
    by (simp add: new_User_vr_fields validate_vr_def validate_fullName_vr_def
        validate_email_vr_def validate_password_vr_def)
qed

lemma save_new_vr_duplicate:
  assumes "2 \<le> length (trim f)" and "match_email (trim (toLowerCase e))" and "6 \<le> length p"
    and "trim (toLowerCase e) \<in> set (map email docs)"
  shows "save_new_vr (new_User_vr now i (trim f) (trim (toLowerCase e)) p) (Available docs)
           = Inl duplicate_key_error"
  using assms(4) validate_vr_ok [OF assms(1-3)]
  by (simp add: save_new_vr_def insertOne_def new_User_vr_fields)

lemma save_new_vr_fresh:
  assumes "2 \<le> length (trim f)" and "match_email (trim (toLowerCase e))" and "6 \<le> length p"
    and "trim (toLowerCase e) \<notin> set (map email docs)"
  shows "save_new_vr (new_User_vr now i (trim f) (trim (toLowerCase e)) p) (Available docs)
           = Inr (Available (docs @ [new_User_vr now i (trim f) (trim (toLowerCase e)) p]))"
  using assms(4) validate_vr_ok [OF assms(1-3)]
  by (simp add: save_new_vr_def insertOne_def new_User_vr_fields)

lemma save_new_srv_duplicate:
  assumes "f \<noteq> []" and "e \<noteq> []" and "p \<noteq> []" and "e \<in> set (map email docs)"
  shows "save_new_srv (new_User_srv now i f e p) (Available docs) = Inl duplicate_key_error"
  using assms
  by (simp add: save_new_srv_def validate_srv_def required_srv_def insertOne_def new_User_srv_def)

lemma save_new_srv_fresh:
  assumes "f \<noteq> []" and "e \<noteq> []" and "p \<noteq> []" and "e \<notin> set (map email docs)"
  shows "save_new_srv (new_User_srv now i f e p) (Available docs)
           = Inr (Available (docs @ [new_User_srv now i f e p]))"
  using assms
  by (simp add: save_new_srv_def validate_srv_def required_srv_def insertOne_def new_User_srv_def)

lemma register_catch_duplicate:
  "register_catch_vr cfg duplicate_key_error = fail_response 400 ''Email already registered''"
  "register_catch_srv duplicate_key_error = fail_response 400 ''Email already registered''"
  by (simp_all add: register_catch_vr_def register_catch_srv_def duplicate_key_error_def)

section \<open>Duplicate key at insertion\<close>

text \<open>
  Claim C5. Take a registration request whose fields are strings, that passes the
  handler's checks and whose existence query finds no account. If the collection the insert meets already holds the
  email to be stored, the insert fails on the unique index with error code 11000, and the
  handler answers 400 with the message \<^verbatim>\<open>Email already registered\<close>, not 500; the
  collection is unchanged. In videoRoutes.js the insert is reached when the document passes
  the schema validators (a trimmed name of at least 2 characters, an email of the required
  shape) and the email to be stored is the lowercased, trimmed one; in server.js it is the
  email as given.
\<close>

theorem register_duplicate_key_at_insert:
  assumes "register_validate (body_fullName b) (body_email b) (body_password b)
             (body_confirmPassword b) = Inr (Str f, Str e, Str p)"
  shows "(User_findOne_vr cfg (toLowerCase e) st_find = Inr None
          \<and> 2 \<le> length (trim f) \<and> match_email (trim (toLowerCase e))
          \<and> trim (toLowerCase e) \<in> set (map email docs)
          \<longrightarrow> register_vr_at cfg now b st_find (Available docs)
                = (fail_response 400 ''Email already registered'', Available docs))
         \<and> (findOne_by_email e st_find = Inr None \<and> e \<in> set (map email docs)
             \<longrightarrow> register_srv_at cfg now b st_find (Available docs)
                   = (fail_response 400 ''Email already registered'', Available docs))"
proof -
  from register_validate_Inr [OF assms]
  have ne: "f \<noteq> []" "e \<noteq> []" "p \<noteq> []" and len: "6 \<le> length p"
    by auto
  show ?thesis
  proof (intro conjI impI)
    assume h: "User_findOne_vr cfg (toLowerCase e) st_find = Inr None
          \<and> 2 \<le> length (trim f) \<and> match_email (trim (toLowerCase e))
          \<and> trim (toLowerCase e) \<in> set (map email docs)"
    then have "save_new_vr (new_User_vr now (ObjectId (Available docs)) (trim f)
                  (trim (toLowerCase e)) p) (Available docs) = Inl duplicate_key_error"
      using len by (simp add: save_new_vr_duplicate)
    with h show "register_vr_at cfg now b st_find (Available docs)
                = (fail_response 400 ''Email already registered'', Available docs)"
      by (simp add: register_vr_at_def assms register_catch_duplicate cast_String_def)
  next
    assume h: "findOne_by_email e st_find = Inr None \<and> e \<in> set (map email docs)"
    then have "save_new_srv (new_User_srv now (ObjectId (Available docs)) f e p) (Available docs)
                 = Inl duplicate_key_error"
      using ne by (simp add: save_new_srv_duplicate)
    with h show "register_srv_at cfg now b st_find (Available docs)
                   = (fail_response 400 ''Email already registered'', Available docs)"
      by (simp add: register_srv_at_def assms register_catch_duplicate cast_String_def
          User_findOne_srv_def)
  qed
qed


theorem register_duplicate_key_at_insert_witness:
  "register_validate (Str ''Asha R'') (Str '' Asha@Example.com'') (Str ''secret2'') (Str ''secret2'')
     = Inr (Str ''Asha R'', Str '' Asha@Example.com'', Str ''secret2'')
   \<and> User_findOne_vr sample_config (toLowerCase '' Asha@Example.com'') (Available [asha]) = Inr None
   \<and> 2 \<le> length (trim ''Asha R'')
   \<and> match_email (trim (toLowerCase '' Asha@Example.com''))
   \<and> trim (toLowerCase '' Asha@Example.com'') \<in> set (map email [asha])
   \<and> register_vr sample_config 3000
        (registration ''Asha R'' '' Asha@Example.com'' ''secret2'' ''secret2'') (Available [asha])
       = (fail_response 400 ''Email already registered'', Available [asha])
   \<and> register_validate (Str ''Asha R'') (Str ''asha@example.com'') (Str ''secret2'') (Str ''secret2'')
       = Inr (Str ''Asha R'', Str ''asha@example.com'', Str ''secret2'')
   \<and> findOne_by_email ''asha@example.com'' (Available []) = Inr None
   \<and> ''asha@example.com'' \<in> set (map email [asha])
   \<and> register_srv_at sample_config 3000
        (registration ''Asha R'' ''asha@example.com'' ''secret2'' ''secret2'')
        (Available []) (Available [asha])
       = (fail_response 400 ''Email already registered'', Available [asha])
   \<and> User_findOne_vr (sample_config\<lparr>runSettersOnQuery := True\<rparr>)
         (toLowerCase ''asha@example.com'') (Available []) = Inr None
   \<and> match_email (trim (toLowerCase ''asha@example.com''))
   \<and> trim (toLowerCase ''asha@example.com'') \<in> set (map email [asha])
   \<and> register_vr_at (sample_config\<lparr>runSettersOnQuery := True\<rparr>) 3000
        (registration ''Asha R'' ''asha@example.com'' ''secret2'' ''secret2'')
        (Available []) (Available [asha])
       = (fail_response 400 ''Email already registered'', Available [asha])"
proof -
  let ?b1 = "registration ''Asha R'' '' Asha@Example.com'' ''secret2'' ''secret2''"
  let ?b2 = "registration ''Asha R'' ''asha@example.com'' ''secret2'' ''secret2''"
  have v1: "register_validate (body_fullName ?b1) (body_email ?b1) (body_password ?b1)
              (body_confirmPassword ?b1) = Inr (Str ''Asha R'', Str '' Asha@Example.com'', Str ''secret2'')"
    and v2: "register_validate (body_fullName ?b2) (body_email ?b2) (body_password ?b2)
              (body_confirmPassword ?b2) = Inr (Str ''Asha R'', Str ''asha@example.com'', Str ''secret2'')"
    by (simp_all add: registration_def register_validate_def)
  have pre1: "User_findOne_vr sample_config (toLowerCase '' Asha@Example.com'') (Available [asha]) = Inr None
      \<and> 2 \<le> length (trim ''Asha R'')
      \<and> match_email (trim (toLowerCase '' Asha@Example.com''))
      \<and> trim (toLowerCase '' Asha@Example.com'') \<in> set (map email [asha])"
    by (simp add: User_findOne_vr_def findOne_by_email_def sample_config_def asha_def js_eval)
  have pre2: "findOne_by_email ''asha@example.com'' (Available []) = Inr None
      \<and> ''asha@example.com'' \<in> set (map email [asha])"
    by (simp add: findOne_by_email_def asha_def)
  have r1: "register_vr_at sample_config 3000 ?b1 (Available [asha]) (Available [asha])
       = (fail_response 400 ''Email already registered'', Available [asha])"
    using register_duplicate_key_at_insert [OF v1, of sample_config "Available [asha]" "[asha]" 3000]
      pre1 by blast
  have r2: "register_srv_at sample_config 3000 ?b2 (Available []) (Available [asha])
       = (fail_response 400 ''Email already registered'', Available [asha])"
    using register_duplicate_key_at_insert [OF v2, of sample_config "Available []" "[asha]" 3000]
      pre2 by blast
  have w1: "register_validate (Str ''Asha R'') (Str '' Asha@Example.com'') (Str ''secret2'')
              (Str ''secret2'') = Inr (Str ''Asha R'', Str '' Asha@Example.com'', Str ''secret2'')"
    and w2: "register_validate (Str ''Asha R'') (Str ''asha@example.com'') (Str ''secret2'')
              (Str ''secret2'') = Inr (Str ''Asha R'', Str ''asha@example.com'', Str ''secret2'')"
    by (simp_all add: register_validate_def)
  from r1 have r1': "register_vr sample_config 3000 ?b1 (Available [asha])
       = (fail_response 400 ''Email already registered'', Available [asha])"
    by (simp only: register_vr_def)
  have pre3: "User_findOne_vr (sample_config\<lparr>runSettersOnQuery := True\<rparr>)
         (toLowerCase ''asha@example.com'') (Available []) = Inr None
      \<and> 2 \<le> length (trim ''Asha R'')
      \<and> match_email (trim (toLowerCase ''asha@example.com''))
      \<and> trim (toLowerCase ''asha@example.com'') \<in> set (map email [asha])"
    by (simp add: User_findOne_vr_def findOne_by_email_def asha_def js_eval)
  have r3: "register_vr_at (sample_config\<lparr>runSettersOnQuery := True\<rparr>) 3000 ?b2
        (Available []) (Available [asha])
       = (fail_response 400 ''Email already registered'', Available [asha])"
    using register_duplicate_key_at_insert [OF v2,
        of "sample_config\<lparr>runSettersOnQuery := True\<rparr>" "Available []" "[asha]" 3000]
      pre3 by blast
  from w1 w2 pre1 pre2 r1' r2 pre3 r3 show ?thesis by blast
qed




section \<open>Facts about the existence query\<close>

lemma findOne_by_email_absent:
  assumes "k \<notin> set (map email docs)"
  shows "findOne_by_email k (Available docs) = Inr None"
  using assms by (auto simp: findOne_by_email_def find_None_iff)

lemma findOne_by_email_present:
  assumes "k \<in> set (map email docs)"
  shows "\<exists>u. findOne_by_email k (Available docs) = Inr (Some u)"
proof -
  from assms have "find (\<lambda>u. email u = k) docs \<noteq> None"
    by (auto simp: find_None_iff)
  then show ?thesis by (auto simp: findOne_by_email_def)
qed

lemma findOne_by_email_Available:
  "\<exists>r. findOne_by_email k (Available docs) = Inr r"
  by (simp add: findOne_by_email_def)

section \<open>Registering the same email twice\<close>

text \<open>
  In server.js the email is looked up and stored exactly as given. There the requests with
  the emails \<^verbatim>\<open>A@B.com\<close> and \<^verbatim>\<open>a@b.com\<close>, which are equal after lowercasing, both
  succeed with status 201 and leave two accounts behind.
\<close>

theorem register_srv_case_sensitive_counterexample:
  "toLowerCase ''A@B.com'' = toLowerCase ''a@b.com''
   \<and> register_srv sample_config 2000 (registration ''Asha Rao'' ''A@B.com'' ''secret1'' ''secret1'') (Available [])
       = (register_created_srv
            \<lparr>uid = 1, fullName = ''Asha Rao'', email = ''A@B.com'', password = ''secret1'',
             createdAt = 2000, lastLogin = None\<rparr>,
          Available [\<lparr>uid = 1, fullName = ''Asha Rao'', email = ''A@B.com'', password = ''secret1'',
             createdAt = 2000, lastLogin = None\<rparr>])
   \<and> register_srv sample_config 3000 (registration ''Asha R'' ''a@b.com'' ''secret2'' ''secret2'')
        (Available [\<lparr>uid = 1, fullName = ''Asha Rao'', email = ''A@B.com'', password = ''secret1'',
             createdAt = 2000, lastLogin = None\<rparr>])
       = (register_created_srv
            \<lparr>uid = 2, fullName = ''Asha R'', email = ''a@b.com'', password = ''secret2'',
             createdAt = 3000, lastLogin = None\<rparr>,
          Available [\<lparr>uid = 1, fullName = ''Asha Rao'', email = ''A@B.com'', password = ''secret1'',
             createdAt = 2000, lastLogin = None\<rparr>,
            \<lparr>uid = 2, fullName = ''Asha R'', email = ''a@b.com'', password = ''secret2'',
             createdAt = 3000, lastLogin = None\<rparr>])
   \<and> status (register_created_srv
            \<lparr>uid = 2, fullName = ''Asha R'', email = ''a@b.com'', password = ''secret2'',
             createdAt = 3000, lastLogin = None\<rparr>) = 201"
  by (simp add: register_srv_def register_srv_at_def registration_def register_validate_def
      User_findOne_srv_def cast_String_def required_srv_def findOne_by_email_def new_User_srv_def ObjectId_def register_created_srv_def
      save_new_srv_def validate_srv_def insertOne_def Let_def numeral_2_eq_2 js_eval)

text \<open>
  Claim C1, for the code as it is. Take two registration requests whose fields are strings
  and that pass the handler's checks.

  In videoRoutes.js, let their emails be equal after lowercasing, let both names have at
  least 2 characters after trimming and the lowercased, trimmed email have the shape the
  schema requires, and let the collection hold neither the lowercased email nor the
  lowercased, trimmed one. Then the first registration succeeds with status 201 and
  appends one account, whose stored email is the lowercased and trimmed one; the second
  is answered with status 400 and one of the two conflict messages (from the existence
  query, which looks the lowercased email up, or from the unique index at the insert),
  and leaves the collection as the first left it.

  In server.js the same holds for two requests whose emails are equal as given: the stored
  email is the email as given and the second request is rejected by the existence query.
  Two requests whose emails differ as given, neither of them in the collection, both
  succeed there, each storing its email as given.
\<close>

theorem register_same_email_conflict:
  assumes v1: "register_validate (body_fullName b1) (body_email b1) (body_password b1)
                 (body_confirmPassword b1) = Inr (Str f1, Str e1, Str p1)"
    and v2: "register_validate (body_fullName b2) (body_email b2) (body_password b2)
                 (body_confirmPassword b2) = Inr (Str f2, Str e2, Str p2)"
  shows "(toLowerCase e1 = toLowerCase e2
          \<and> 2 \<le> length (trim f1) \<and> 2 \<le> length (trim f2) \<and> match_email (trim (toLowerCase e1))
          \<and> toLowerCase e1 \<notin> set (map email docs) \<and> trim (toLowerCase e1) \<notin> set (map email docs)
          \<longrightarrow> (\<exists>u. register_vr cfg t1 b1 (Available docs)
                       = (register_created_vr u, Available (docs @ [u]))
                  \<and> status (register_created_vr u) = 201
                  \<and> email u = trim (toLowerCase e1)
                  \<and> fst (register_vr cfg t2 b2 (Available (docs @ [u])))
                      \<in> set [fail_response 400 ''User already exists with this email'',
                               fail_response 400 ''Email already registered'']
                  \<and> snd (register_vr cfg t2 b2 (Available (docs @ [u]))) = Available (docs @ [u])))
         \<and> (e1 = e2 \<and> e1 \<notin> set (map email docs)
             \<longrightarrow> (\<exists>u. register_srv cfg t1 b1 (Available docs)
                          = (register_created_srv u, Available (docs @ [u]))
                     \<and> status (register_created_srv u) = 201
                     \<and> email u = e1
                     \<and> register_srv cfg t2 b2 (Available (docs @ [u]))
                         = (fail_response 400 ''User already exists with this email'',
                            Available (docs @ [u]))))
         \<and> (e1 \<noteq> e2 \<and> e1 \<notin> set (map email docs) \<and> e2 \<notin> set (map email docs)
             \<longrightarrow> (\<exists>u u'. register_srv cfg t1 b1 (Available docs)
                             = (register_created_srv u, Available (docs @ [u]))
                        \<and> email u = e1
                        \<and> register_srv cfg t2 b2 (Available (docs @ [u]))
                            = (register_created_srv u', Available (docs @ [u, u']))
                        \<and> status (register_created_srv u') = 201
                        \<and> email u' = e2))"
proof (intro conjI impI)
  assume h: "toLowerCase e1 = toLowerCase e2
          \<and> 2 \<le> length (trim f1) \<and> 2 \<le> length (trim f2) \<and> match_email (trim (toLowerCase e1))
          \<and> toLowerCase e1 \<notin> set (map email docs) \<and> trim (toLowerCase e1) \<notin> set (map email docs)"
  from register_validate_Inr [OF v1] register_validate_Inr [OF v2]
  have len: "6 \<le> length p1" "6 \<le> length p2" by auto
  let ?u = "new_User_vr t1 (ObjectId (Available docs)) (trim f1) (trim (toLowerCase e1)) p1"
  let ?st = "Available (docs @ [?u])"
  have mail: "email ?u = trim (toLowerCase e1)"
    by (simp add: new_User_vr_fields)
  from h have eq: "toLowerCase e1 = toLowerCase e2"
    and l1: "2 \<le> length (trim f1)" and l2: "2 \<le> length (trim f2)"
    and m1: "match_email (trim (toLowerCase e1))"
    and n1: "toLowerCase e1 \<notin> set (map email docs)"
    and n2: "trim (toLowerCase e1) \<notin> set (map email docs)"
    by blast+
  from m1 have m2: "match_email (trim (toLowerCase e2))"
    by (simp only: eq)
  have find1: "User_findOne_vr cfg (toLowerCase e1) (Available docs) = Inr None"
    using findOne_by_email_absent [OF n1] findOne_by_email_absent [OF n2]
    by (simp add: User_findOne_vr_def toLowerCase_idem)
  have save1: "save_new_vr ?u (Available docs) = Inr ?st"
    by (rule save_new_vr_fresh [OF l1 m1 len(1) n2])
  have first: "register_vr cfg t1 b1 (Available docs) = (register_created_vr ?u, ?st)"
    by (simp add: register_vr_def register_vr_at_def v1 find1 save1 Let_def cast_String_def)
  have dup: "trim (toLowerCase e2) \<in> set (map email (docs @ [?u]))"
    by (simp add: mail eq [symmetric])
  have save2: "save_new_vr (new_User_vr t2 (ObjectId ?st) (trim f2) (trim (toLowerCase e2)) p2) ?st
                 = Inl duplicate_key_error"
    by (rule save_new_vr_duplicate [OF l2 m2 len(2) dup])
  obtain r where find2: "User_findOne_vr cfg (toLowerCase e2) ?st = Inr r"
    unfolding User_findOne_vr_def using findOne_by_email_Available by blast
  have second: "register_vr cfg t2 b2 ?st
                  = (if r = None then fail_response 400 ''Email already registered''
                     else fail_response 400 ''User already exists with this email'', ?st)"
    using save2
    by (cases r) (simp_all add: register_vr_def register_vr_at_def v2 find2 Let_def
        register_catch_duplicate cast_String_def)
  show "\<exists>u. register_vr cfg t1 b1 (Available docs)
                       = (register_created_vr u, Available (docs @ [u]))
                  \<and> status (register_created_vr u) = 201
                  \<and> email u = trim (toLowerCase e1)
                  \<and> fst (register_vr cfg t2 b2 (Available (docs @ [u])))
                      \<in> set [fail_response 400 ''User already exists with this email'',
                               fail_response 400 ''Email already registered'']
                  \<and> snd (register_vr cfg t2 b2 (Available (docs @ [u]))) = Available (docs @ [u])"
    using first mail second
    by (intro exI [of _ ?u]) (simp add: register_created_vr_def)
next
  assume h: "e1 = e2 \<and> e1 \<notin> set (map email docs)"
  from register_validate_Inr [OF v1] register_validate_Inr [OF v2]
  have ne: "f1 \<noteq> []" "e1 \<noteq> []" "p1 \<noteq> []" by auto
  let ?u = "new_User_srv t1 (ObjectId (Available docs)) f1 e1 p1"
  let ?st = "Available (docs @ [?u])"
  have mail: "email ?u = e1"
    by (simp add: new_User_srv_def)
  from h have eq: "e1 = e2" and n: "e1 \<notin> set (map email docs)"
    by blast+
  have find1: "findOne_by_email e1 (Available docs) = Inr None"
    by (rule findOne_by_email_absent [OF n])
  have save1: "save_new_srv ?u (Available docs) = Inr ?st"
    by (rule save_new_srv_fresh [OF ne n])
  have first: "register_srv cfg t1 b1 (Available docs) = (register_created_srv ?u, ?st)"
    by (simp add: register_srv_def register_srv_at_def v1 find1 save1 Let_def cast_String_def
        User_findOne_srv_def)
  have "e2 \<in> set (map email (docs @ [?u]))"
    by (simp add: mail eq [symmetric])
  then obtain x where find2: "findOne_by_email e2 ?st = Inr (Some x)"
    using findOne_by_email_present by blast
  have second: "register_srv cfg t2 b2 ?st
                  = (fail_response 400 ''User already exists with this email'', ?st)"
    by (simp add: register_srv_def register_srv_at_def v2 find2 User_findOne_srv_def)
  show "\<exists>u. register_srv cfg t1 b1 (Available docs)
                          = (register_created_srv u, Available (docs @ [u]))
                     \<and> status (register_created_srv u) = 201
                     \<and> email u = e1
                     \<and> register_srv cfg t2 b2 (Available (docs @ [u]))
                         = (fail_response 400 ''User already exists with this email'',
                            Available (docs @ [u]))"
    using first mail second
    by (intro exI [of _ ?u]) (simp add: register_created_srv_def)
next
  assume h: "e1 \<noteq> e2 \<and> e1 \<notin> set (map email docs) \<and> e2 \<notin> set (map email docs)"
  from register_validate_Inr [OF v1] register_validate_Inr [OF v2]
  have ne1: "f1 \<noteq> []" "e1 \<noteq> []" "p1 \<noteq> []" and ne2: "f2 \<noteq> []" "e2 \<noteq> []" "p2 \<noteq> []"
    by auto
  let ?u = "new_User_srv t1 (ObjectId (Available docs)) f1 e1 p1"
  let ?st = "Available (docs @ [?u])"
  let ?u' = "new_User_srv t2 (ObjectId ?st) f2 e2 p2"
  from h have neq: "e1 \<noteq> e2" and n1: "e1 \<notin> set (map email docs)"
    and n2: "e2 \<notin> set (map email docs)"
    by blast+
  have mail: "email ?u = e1" "email ?u' = e2"
    by (simp_all add: new_User_srv_def)
  have find1: "findOne_by_email e1 (Available docs) = Inr None"
    by (rule findOne_by_email_absent [OF n1])
  have save1: "save_new_srv ?u (Available docs) = Inr ?st"
    by (rule save_new_srv_fresh [OF ne1 n1])
  have first: "register_srv cfg t1 b1 (Available docs) = (register_created_srv ?u, ?st)"
    by (simp add: register_srv_def register_srv_at_def v1 find1 save1 Let_def cast_String_def
        User_findOne_srv_def)
  have n2': "e2 \<notin> set (map email (docs @ [?u]))"
    using n2 neq by (simp add: mail)
  have find2: "findOne_by_email e2 ?st = Inr None"
    by (rule findOne_by_email_absent [OF n2'])
  have save2: "save_new_srv ?u' ?st = Inr (Available ((docs @ [?u]) @ [?u']))"
    by (rule save_new_srv_fresh [OF ne2 n2'])
  have second: "register_srv cfg t2 b2 ?st = (register_created_srv ?u', Available (docs @ [?u, ?u']))"
    by (simp add: register_srv_def register_srv_at_def v2 find2 save2 Let_def cast_String_def
        User_findOne_srv_def)
  show "\<exists>u u'. register_srv cfg t1 b1 (Available docs)
                             = (register_created_srv u, Available (docs @ [u]))
                        \<and> email u = e1
                        \<and> register_srv cfg t2 b2 (Available (docs @ [u]))
                            = (register_created_srv u', Available (docs @ [u, u']))
                        \<and> status (register_created_srv u') = 201
                        \<and> email u' = e2"
    using first second mail
    by (intro exI [of _ ?u] exI [of _ ?u']) (simp add: register_created_srv_def)
qed


theorem register_same_email_conflict_witness:
  "toLowerCase ''A@B.com'' = toLowerCase ''a@b.com''
   \<and> 2 \<le> length (trim ''Asha Rao'') \<and> 2 \<le> length (trim ''Asha R'')
   \<and> match_email (trim (toLowerCase ''A@B.com''))
   \<and> toLowerCase ''A@B.com'' \<notin> set (map email [asha])
   \<and> trim (toLowerCase ''A@B.com'') \<notin> set (map email [asha])
   \<and> register_vr sample_config 2000
        (registration ''Asha Rao'' ''A@B.com'' ''secret1'' ''secret1'') (Available [asha])
       = (register_created_vr
            \<lparr>uid = 2, fullName = ''Asha Rao'', email = ''a@b.com'', password = ''secret1'',
             createdAt = 2000, lastLogin = None\<rparr>,
          Available [asha,
            \<lparr>uid = 2, fullName = ''Asha Rao'', email = ''a@b.com'', password = ''secret1'',
             createdAt = 2000, lastLogin = None\<rparr>])
   \<and> register_vr sample_config 3000
        (registration ''Asha R'' ''a@b.com'' ''secret2'' ''secret2'')
        (Available [asha,
            \<lparr>uid = 2, fullName = ''Asha Rao'', email = ''a@b.com'', password = ''secret1'',
             createdAt = 2000, lastLogin = None\<rparr>])
       = (fail_response 400 ''User already exists with this email'',
          Available [asha,
            \<lparr>uid = 2, fullName = ''Asha Rao'', email = ''a@b.com'', password = ''secret1'',
             createdAt = 2000, lastLogin = None\<rparr>])
   \<and> ''a@b.com'' \<notin> set (map email [asha])
   \<and> register_srv sample_config 3000
        (registration ''Asha R'' ''a@b.com'' ''secret2'' ''secret2'')
        (Available [asha,
            \<lparr>uid = 2, fullName = ''Asha R'', email = ''a@b.com'', password = ''secret2'',
             createdAt = 2000, lastLogin = None\<rparr>])
       = (fail_response 400 ''User already exists with this email'',
          Available [asha,
            \<lparr>uid = 2, fullName = ''Asha R'', email = ''a@b.com'', password = ''secret2'',
             createdAt = 2000, lastLogin = None\<rparr>])
   \<and> ''A@B.com'' \<noteq> ''a@b.com'' \<and> ''A@B.com'' \<notin> set (map email [asha])
   \<and> status (fst (register_srv sample_config 3000
        (registration ''Asha R'' ''a@b.com'' ''secret2'' ''secret2'')
        (snd (register_srv sample_config 2000
           (registration ''Asha Rao'' ''A@B.com'' ''secret1'' ''secret1'') (Available [asha]))))) = 201"
proof -
  let ?b1 = "registration ''Asha Rao'' ''A@B.com'' ''secret1'' ''secret1''"
  let ?b2 = "registration ''Asha R'' ''a@b.com'' ''secret2'' ''secret2''"
  let ?u = "\<lparr>uid = 2, fullName = ''Asha Rao'', email = ''a@b.com'', password = ''secret1'',
             createdAt = 2000, lastLogin = None\<rparr>"
  have v1: "register_validate (body_fullName ?b1) (body_email ?b1) (body_password ?b1)
              (body_confirmPassword ?b1) = Inr (Str ''Asha Rao'', Str ''A@B.com'', Str ''secret1'')"
    and v2: "register_validate (body_fullName ?b2) (body_email ?b2) (body_password ?b2)
              (body_confirmPassword ?b2) = Inr (Str ''Asha R'', Str ''a@b.com'', Str ''secret2'')"
    by (simp_all add: registration_def register_validate_def)
  have pre: "toLowerCase ''A@B.com'' = toLowerCase ''a@b.com''
      \<and> 2 \<le> length (trim ''Asha Rao'') \<and> 2 \<le> length (trim ''Asha R'')
      \<and> match_email (trim (toLowerCase ''A@B.com''))
      \<and> toLowerCase ''A@B.com'' \<notin> set (map email [asha])
      \<and> trim (toLowerCase ''A@B.com'') \<notin> set (map email [asha])"
    by (simp add: asha_def js_eval)
  from register_same_email_conflict [OF v1 v2, of "[asha]" sample_config 2000 3000] pre
  obtain u where first: "register_vr sample_config 2000 ?b1 (Available [asha])
        = (register_created_vr u, Available ([asha] @ [u]))"
    and second: "fst (register_vr sample_config 3000 ?b2 (Available ([asha] @ [u])))
        \<in> set [fail_response 400 ''User already exists with this email'',
                 fail_response 400 ''Email already registered'']"
      "snd (register_vr sample_config 3000 ?b2 (Available ([asha] @ [u]))) = Available ([asha] @ [u])"
    by blast
  have run1: "register_vr sample_config 2000 ?b1 (Available [asha])
        = (register_created_vr ?u, Available [asha, ?u])"
    by (simp add: register_vr_def register_vr_at_def registration_def register_validate_def
        cast_String_def validate_fullName_vr_def validate_email_vr_def validate_password_vr_def
        User_findOne_vr_def
        findOne_by_email_def sample_config_def asha_def new_User_vr_def ObjectId_def
        save_new_vr_def validate_vr_def insertOne_def Let_def numeral_2_eq_2 js_eval)
  with first have u: "u = ?u" by simp
  from first have run1': "register_vr sample_config 2000 ?b1 (Available [asha])
        = (register_created_vr ?u, Available [asha, ?u])"
    unfolding u by simp
  have run2: "register_vr sample_config 3000 ?b2 (Available [asha, ?u])
        = (fail_response 400 ''User already exists with this email'', Available [asha, ?u])"
    by (simp add: register_vr_def register_vr_at_def registration_def register_validate_def
        cast_String_def validate_fullName_vr_def validate_email_vr_def validate_password_vr_def
        User_findOne_vr_def
        findOne_by_email_def sample_config_def asha_def js_eval)
  let ?u2 = "\<lparr>uid = 2, fullName = ''Asha R'', email = ''a@b.com'', password = ''secret2'',
             createdAt = 2000, lastLogin = None\<rparr>"
  have pre3: "''a@b.com'' \<notin> set (map email [asha])"
    "''A@B.com'' \<noteq> ''a@b.com''" "''A@B.com'' \<notin> set (map email [asha])"
    by (simp_all add: asha_def)
  from register_same_email_conflict [OF v2 v2, of "[asha]" sample_config 2000 3000] pre3
  obtain w where w1: "register_srv sample_config 2000 ?b2 (Available [asha])
        = (register_created_srv w, Available ([asha] @ [w]))"
    and w2: "register_srv sample_config 3000 ?b2 (Available ([asha] @ [w]))
        = (fail_response 400 ''User already exists with this email'', Available ([asha] @ [w]))"
    by blast
  have "register_srv sample_config 2000 ?b2 (Available [asha])
        = (register_created_srv ?u2, Available [asha, ?u2])"
    by (simp add: register_srv_def register_srv_at_def registration_def register_validate_def
        User_findOne_srv_def cast_String_def required_srv_def findOne_by_email_def asha_def
        new_User_srv_def ObjectId_def save_new_srv_def validate_srv_def insertOne_def Let_def
        numeral_2_eq_2)
  with w1 have w: "w = ?u2" by simp
  from w2 have run3: "register_srv sample_config 3000 ?b2 (Available [asha, ?u2])
        = (fail_response 400 ''User already exists with this email'', Available [asha, ?u2])"
    unfolding w by simp
  from register_same_email_conflict [OF v1 v2, of "[asha]" sample_config 2000 3000] pre3
  obtain x x' where x1: "register_srv sample_config 2000 ?b1 (Available [asha])
        = (register_created_srv x, Available ([asha] @ [x]))"
    and x2: "register_srv sample_config 3000 ?b2 (Available ([asha] @ [x]))
        = (register_created_srv x', Available ([asha] @ [x, x']))"
    and x3: "status (register_created_srv x') = 201"
    by blast
  from x1 x2 x3 have run4: "status (fst (register_srv sample_config 3000 ?b2
      (snd (register_srv sample_config 2000 ?b1 (Available [asha]))))) = 201"
    by simp
  from pre run1' run2 pre3 run3 run4 show ?thesis by blast
qed

section \<open>Successful login\<close>

lemma findOne_by_email_Some:
  assumes "findOne_by_email k (Available docs) = Inr (Some u)"
  shows "u \<in> set docs \<and> email u = k"
proof -
  from assms have "find (\<lambda>u. email u = k) docs = Some u"
    by (simp add: findOne_by_email_def)
  then show ?thesis
    by (auto simp: find_Some_iff)
qed

lemma findOne_by_email_last:
  assumes "k \<notin> set (map email docs)" and "email u = k"
  shows "findOne_by_email k (Available (docs @ [u])) = Inr (Some u)"
proof -
  from assms(1) have "find (\<lambda>v. email v = k) docs = None"
    by (auto simp: find_None_iff)
  then have "find (\<lambda>v. email v = k) (docs @ [u]) = Some u"
    using assms(2) by (induction docs) (auto split: if_splits)
  then show ?thesis by (simp add: findOne_by_email_def)
qed

lemma validate_vr_lastLogin: "validate_vr (u\<lparr>lastLogin := t\<rparr>) = validate_vr u"
  by (simp add: validate_vr_def)

lemma save_lastLogin_ok:
  assumes "validate_vr u = []" and "u \<in> set docs"
  shows "save_lastLogin (u\<lparr>lastLogin := Some now\<rparr>) (Available docs)
           = Inr (Available (map (\<lambda>v. if uid v = uid u then v\<lparr>lastLogin := Some now\<rparr> else v) docs))"
  using assms by (simp add: save_lastLogin_def validate_vr_lastLogin)

lemma save_lastLogin_invalid:
  assumes "validate_vr u \<noteq> []"
  shows "save_lastLogin (u\<lparr>lastLogin := Some now\<rparr>) st = Inl (validation_error (validate_vr u))"
  using assms by (simp add: save_lastLogin_def validate_vr_lastLogin)

lemma save_lastLogin_unavailable:
  "\<exists>err. save_lastLogin u (Unavailable m) = Inl err"
  by (simp add: save_lastLogin_def)

lemma status_login_catch_vr: "status (login_catch_vr cfg err) = 500"
  by (simp add: login_catch_vr_def)

lemma status_register_catch_vr: "status (register_catch_vr cfg err) \<noteq> 201"
  by (simp add: register_catch_vr_def fail_response_def)

lemma save_new_vr_Inr:
  assumes "save_new_vr u (Available docs) = Inr st'"
  shows "validate_vr u = [] \<and> email u \<notin> set (map email docs) \<and> st' = Available (docs @ [u])"
  using assms by (auto simp: save_new_vr_def insertOne_def split: if_splits)

lemma login_vr_found:
  assumes b: "body_email b = Str e" "e \<noteq> []" "body_password b = Str p" "p \<noteq> []"
    and f: "User_findOne_vr cfg (toLowerCase e) (Available docs) = Inr (Some u)"
    and pw: "password u = p" and ok: "validate_vr u = []"
  shows "login_vr cfg now b (Available docs)
           = (login_ok_vr (u\<lparr>lastLogin := Some now\<rparr>),
              Available (map (\<lambda>v. if uid v = uid u then v\<lparr>lastLogin := Some now\<rparr> else v) docs))"
proof -
  from f have mem: "u \<in> set docs"
    unfolding User_findOne_vr_def using findOne_by_email_Some by blast
  show ?thesis
    using b pw
    by (simp add: login_vr_def login_vr_at_def login_validate_def f
        save_lastLogin_ok [OF ok mem] Let_def)
qed

lemma register_then_login:
  assumes b: "body_email b = Str e" "e \<noteq> []" "body_password b = Str p" "p \<noteq> []"
    and v: "register_validate (body_fullName rb) (body_email rb) (body_password rb)
              (body_confirmPassword rb) = Inr (Str f, Str e, Str p)"
    and norm: "trim (toLowerCase e) = toLowerCase e"
    and reg: "register_vr cfg t0 rb (Available docs0) = (r, st1)" and ok: "status r = 201"
  shows "\<exists>u. st1 = Available (docs0 @ [u]) \<and> createdAt u = t0 \<and> email u = toLowerCase e
           \<and> login_vr cfg now b st1
               = (login_ok_vr (u\<lparr>lastLogin := Some now\<rparr>),
                  Available (map (\<lambda>v. if uid v = uid u then v\<lparr>lastLogin := Some now\<rparr> else v)
                               (docs0 @ [u])))"
proof -
  let ?u = "new_User_vr t0 (ObjectId (Available docs0)) (trim f) (trim (toLowerCase e)) p"
  obtain x where find: "User_findOne_vr cfg (toLowerCase e) (Available docs0) = Inr x"
    unfolding User_findOne_vr_def using findOne_by_email_Available by blast
  have x: "x = None"
  proof (cases x)
    case (Some y)
    with reg ok show ?thesis
      by (auto simp: register_vr_def register_vr_at_def v find fail_response_def)
  qed simp
  have saved: "\<exists>st'. save_new_vr ?u (Available docs0) = Inr st'"
  proof (cases "save_new_vr ?u (Available docs0)")
    case (Inl err)
    with reg ok status_register_catch_vr [of cfg err] show ?thesis
      by (auto simp: register_vr_def register_vr_at_def v find x cast_String_def Let_def)
  qed simp
  then obtain st' where save: "save_new_vr ?u (Available docs0) = Inr st'" by blast
  from save_new_vr_Inr [OF save]
  have valid: "validate_vr ?u = []" and fresh: "email ?u \<notin> set (map email docs0)"
    and st': "st' = Available (docs0 @ [?u])"
    by auto
  from reg have st1: "st1 = Available (docs0 @ [?u])"
    by (simp add: register_vr_def register_vr_at_def v find x cast_String_def Let_def save st')
  have mail: "email ?u = toLowerCase e"
    unfolding new_User_vr_fields by (simp add: norm)
  have key: "(if runSettersOnQuery cfg then trim (toLowerCase (toLowerCase e)) else toLowerCase e)
               = toLowerCase e"
    by (simp add: toLowerCase_idem norm)
  have find2: "User_findOne_vr cfg (toLowerCase e) (Available (docs0 @ [?u])) = Inr (Some ?u)"
    unfolding User_findOne_vr_def key
    using fresh mail by (intro findOne_by_email_last) simp_all
  have pw: "password ?u = p"
    by (simp add: new_User_vr_fields)
  have login: "login_vr cfg now b (Available (docs0 @ [?u]))
           = (login_ok_vr (?u\<lparr>lastLogin := Some now\<rparr>),
              Available (map (\<lambda>v. if uid v = uid ?u then v\<lparr>lastLogin := Some now\<rparr> else v)
                           (docs0 @ [?u])))"
    by (rule login_vr_found [OF b find2 pw valid])
  have "createdAt ?u = t0"
    by (simp add: new_User_vr_fields)
  with st1 mail login show ?thesis by blast
qed

text \<open>
  In server.js a successful login writes nothing: the account found is returned and the
  collection, with \<^verbatim>\<open>lastLogin\<close> still unset, is as before. In videoRoutes.js
  \<^verbatim>\<open>lastLogin\<close> becomes the clock reading of the login whatever \<^verbatim>\<open>createdAt\<close> is: a
  login at reading 500 on an account created at reading 1000 stores a \<^verbatim>\<open>lastLogin\<close>
  below \<^verbatim>\<open>createdAt\<close>. And a login with the right password on a stored account that does
  not pass the schema of videoRoutes.js (a one-character name, as server.js accepts it) is
  answered 500 and writes nothing, because the save validates the document.
\<close>

theorem login_srv_writes_nothing_counterexample:
  "login_srv sample_config (credentials ''asha@example.com'' ''secret1'') (Available [asha])
     = (login_ok_srv asha, Available [asha])
   \<and> status (login_ok_srv asha) = 200
   \<and> lastLogin asha = None
   \<and> login_vr sample_config 500 (credentials ''asha@example.com'' ''secret1'') (Available [asha])
       = (login_ok_vr (asha\<lparr>lastLogin := Some 500\<rparr>), Available [asha\<lparr>lastLogin := Some 500\<rparr>])
   \<and> createdAt (asha\<lparr>lastLogin := Some 500\<rparr>) = 1000
   \<and> \<not> (createdAt (asha\<lparr>lastLogin := Some 500\<rparr>) \<le> 500)
   \<and> login_vr sample_config 2000 (credentials ''asha@example.com'' ''secret1'')
        (Available [asha\<lparr>fullName := ''A''\<rparr>])
       = (\<lparr>status = 500,
           body = JObj [(''success'', JBool False),
                        (''message'', JStr ''Server error during login'')]\<rparr>,
          Available [asha\<lparr>fullName := ''A''\<rparr>])"
  by (simp add: login_srv_def login_vr_def login_vr_at_def login_validate_def credentials_def
      User_findOne_srv_def User_findOne_vr_def findOne_by_email_def
      sample_config_def asha_def save_lastLogin_def login_ok_srv_def login_catch_vr_def
      dev_error_def validate_vr_def validate_fullName_vr_def validate_email_vr_def
      validate_password_vr_def Let_def js_eval)

text \<open>
  Claim C4, for the code as it is. Take a login request that carries an email and a
  password, both strings.

  In videoRoutes.js, let the lookup under the lowercased email find an account whose stored
  password equals the one supplied.
  \<^item> If the account passes the validators of the schema, the handler answers 200, the
    collection afterwards is the old one with \<^verbatim>\<open>lastLogin\<close> of the account with that
    \<^verbatim>\<open>_id\<close> set to the clock reading of the login (one update), the account found is in
    it with that \<^verbatim>\<open>lastLogin\<close>, and the returned user view has exactly the keys
    \<^verbatim>\<open>id\<close>, \<^verbatim>\<open>fullName\<close>, \<^verbatim>\<open>email\<close>, \<^verbatim>\<open>lastLogin\<close>: no password. None of this
    depends on the clock; if moreover the clock reading of the login is not below the
    account's \<^verbatim>\<open>createdAt\<close>, neither is the new \<^verbatim>\<open>lastLogin\<close>.
  \<^item> If the account does not pass the validators, the save fails, the answer is 500 and
    the collection is unchanged.
  \<^item> If the store has become unreachable between the lookup and the save, the answer is
    500 and nothing is written.
  \<^item> If the account is one that this registration handler has just created, at a clock
    reading not above that of the login, from the same email (without surrounding
    whitespace) and password, then the login succeeds as above, and the \<^verbatim>\<open>lastLogin\<close> it
    stores is not below the \<^verbatim>\<open>createdAt\<close> the registration stored.

  In server.js, if the lookup under the email as given finds such an account, the handler
  answers 200 with the view \<^verbatim>\<open>id\<close>, \<^verbatim>\<open>fullName\<close>, \<^verbatim>\<open>email\<close> and leaves the collection
  unchanged.
\<close>

theorem login_success_updates_lastLogin:
  assumes "body_email b = Str e" and "e \<noteq> []" and "body_password b = Str p" and "p \<noteq> []"
  shows "(User_findOne_vr cfg (toLowerCase e) (Available docs) = Inr (Some u)
          \<and> password u = p \<and> validate_vr u = []
          \<longrightarrow> login_vr cfg now b (Available docs)
                = (login_ok_vr (u\<lparr>lastLogin := Some now\<rparr>),
                   Available (map (\<lambda>v. if uid v = uid u then v\<lparr>lastLogin := Some now\<rparr> else v) docs))
              \<and> u\<lparr>lastLogin := Some now\<rparr>
                   \<in> set (map (\<lambda>v. if uid v = uid u then v\<lparr>lastLogin := Some now\<rparr> else v) docs)
              \<and> status (login_ok_vr (u\<lparr>lastLogin := Some now\<rparr>)) = 200
              \<and> json_get ''user'' (body (login_ok_vr (u\<lparr>lastLogin := Some now\<rparr>)))
                  = Some (JObj [(''id'', JId (uid u)), (''fullName'', JStr (fullName u)),
                                (''email'', JStr (email u)), (''lastLogin'', JDate now)])
              \<and> ''password'' \<notin> set (json_keys (JObj [(''id'', JId (uid u)),
                                (''fullName'', JStr (fullName u)),
                                (''email'', JStr (email u)), (''lastLogin'', JDate now)]))
              \<and> (createdAt u \<le> now \<longrightarrow> createdAt (u\<lparr>lastLogin := Some now\<rparr>) \<le> now))
         \<and> (User_findOne_vr cfg (toLowerCase e) (Available docs) = Inr (Some u)
             \<and> password u = p \<and> validate_vr u \<noteq> []
             \<longrightarrow> login_vr cfg now b (Available docs)
                   = (login_catch_vr cfg (validation_error (validate_vr u)), Available docs)
                 \<and> status (login_catch_vr cfg (validation_error (validate_vr u))) = 500)
         \<and> (User_findOne_vr cfg (toLowerCase e) st_find = Inr (Some u) \<and> password u = p
             \<longrightarrow> status (fst (login_vr_at cfg now b st_find (Unavailable m))) = 500
                 \<and> snd (login_vr_at cfg now b st_find (Unavailable m)) = Unavailable m)
         \<and> (register_validate (body_fullName rb) (body_email rb) (body_password rb)
               (body_confirmPassword rb) = Inr (Str f, Str e, Str p)
             \<and> trim (toLowerCase e) = toLowerCase e
             \<and> register_vr cfg t0 rb (Available docs0) = (r, st1) \<and> status r = 201 \<and> t0 \<le> now
             \<longrightarrow> (\<exists>u0. st1 = Available (docs0 @ [u0]) \<and> createdAt u0 = t0
                    \<and> login_vr cfg now b st1
                        = (login_ok_vr (u0\<lparr>lastLogin := Some now\<rparr>),
                           Available (map (\<lambda>v. if uid v = uid u0 then v\<lparr>lastLogin := Some now\<rparr>
                                                else v) (docs0 @ [u0])))
                    \<and> u0\<lparr>lastLogin := Some now\<rparr>
                        \<in> set (map (\<lambda>v. if uid v = uid u0 then v\<lparr>lastLogin := Some now\<rparr>
                                         else v) (docs0 @ [u0]))
                    \<and> createdAt (u0\<lparr>lastLogin := Some now\<rparr>) \<le> now))
         \<and> (findOne_by_email e (Available docs) = Inr (Some u) \<and> password u = p
             \<longrightarrow> login_srv cfg b (Available docs) = (login_ok_srv u, Available docs)
                 \<and> status (login_ok_srv u) = 200
                 \<and> json_get ''user'' (body (login_ok_srv u))
                     = Some (JObj [(''id'', JId (uid u)), (''fullName'', JStr (fullName u)),
                                   (''email'', JStr (email u))]))"
proof (intro conjI impI)
  assume h: "User_findOne_vr cfg (toLowerCase e) (Available docs) = Inr (Some u)
          \<and> password u = p \<and> validate_vr u = []"
  then have mem: "u \<in> set docs"
    unfolding User_findOne_vr_def using findOne_by_email_Some by blast
  then show "u\<lparr>lastLogin := Some now\<rparr>
      \<in> set (map (\<lambda>v. if uid v = uid u then v\<lparr>lastLogin := Some now\<rparr> else v) docs)"
    by (auto simp: image_iff intro!: bexI [of _ u])
  from h show "login_vr cfg now b (Available docs)
                = (login_ok_vr (u\<lparr>lastLogin := Some now\<rparr>),
                   Available (map (\<lambda>v. if uid v = uid u then v\<lparr>lastLogin := Some now\<rparr> else v) docs))"
    by (intro login_vr_found [OF assms]) blast+
  show "status (login_ok_vr (u\<lparr>lastLogin := Some now\<rparr>)) = 200"
    by (simp add: login_ok_vr_def)
  show "json_get ''user'' (body (login_ok_vr (u\<lparr>lastLogin := Some now\<rparr>)))
                  = Some (JObj [(''id'', JId (uid u)), (''fullName'', JStr (fullName u)),
                                (''email'', JStr (email u)), (''lastLogin'', JDate now)])"
    by (simp add: login_ok_vr_def json_get_def)
  show "''password'' \<notin> set (json_keys (JObj [(''id'', JId (uid u)),
                                (''fullName'', JStr (fullName u)),
                                (''email'', JStr (email u)), (''lastLogin'', JDate now)]))"
    by (simp add: json_keys_def)
  show "createdAt (u\<lparr>lastLogin := Some now\<rparr>) \<le> now" if "createdAt u \<le> now"
    using that by simp
next
  assume h: "User_findOne_vr cfg (toLowerCase e) (Available docs) = Inr (Some u)
             \<and> password u = p \<and> validate_vr u \<noteq> []"
  then have bad: "validate_vr u \<noteq> []" by blast
  from h assms show "login_vr cfg now b (Available docs)
                   = (login_catch_vr cfg (validation_error (validate_vr u)), Available docs)"
    by (simp add: login_vr_def login_vr_at_def login_validate_def
        save_lastLogin_invalid [OF bad] Let_def)
  show "status (login_catch_vr cfg (validation_error (validate_vr u))) = 500"
    by (rule status_login_catch_vr)
next
  assume h: "User_findOne_vr cfg (toLowerCase e) st_find = Inr (Some u) \<and> password u = p"
  obtain err where err: "save_lastLogin (u\<lparr>lastLogin := Some now\<rparr>) (Unavailable m) = Inl err"
    using save_lastLogin_unavailable by blast
  from h assms have run: "login_vr_at cfg now b st_find (Unavailable m)
      = (login_catch_vr cfg err, Unavailable m)"
    by (simp add: login_vr_at_def login_validate_def err Let_def)
  show "status (fst (login_vr_at cfg now b st_find (Unavailable m))) = 500"
    by (simp add: run status_login_catch_vr)
  show "snd (login_vr_at cfg now b st_find (Unavailable m)) = Unavailable m"
    by (simp add: run)
next
  assume h: "register_validate (body_fullName rb) (body_email rb) (body_password rb)
               (body_confirmPassword rb) = Inr (Str f, Str e, Str p)
             \<and> trim (toLowerCase e) = toLowerCase e
             \<and> register_vr cfg t0 rb (Available docs0) = (r, st1) \<and> status r = 201 \<and> t0 \<le> now"
  then have v: "register_validate (body_fullName rb) (body_email rb) (body_password rb)
               (body_confirmPassword rb) = Inr (Str f, Str e, Str p)"
    and norm: "trim (toLowerCase e) = toLowerCase e"
    and reg: "register_vr cfg t0 rb (Available docs0) = (r, st1)" and ok: "status r = 201"
    and clock: "t0 \<le> now"
    by blast+
  from register_then_login [OF assms v norm reg ok, of now]
  obtain u0 where st1: "st1 = Available (docs0 @ [u0])" and c: "createdAt u0 = t0"
    and login: "login_vr cfg now b st1
               = (login_ok_vr (u0\<lparr>lastLogin := Some now\<rparr>),
                  Available (map (\<lambda>v. if uid v = uid u0 then v\<lparr>lastLogin := Some now\<rparr> else v)
                               (docs0 @ [u0])))"
    by blast
  have mem: "u0\<lparr>lastLogin := Some now\<rparr>
      \<in> set (map (\<lambda>v. if uid v = uid u0 then v\<lparr>lastLogin := Some now\<rparr> else v) (docs0 @ [u0]))"
    by simp
  have "createdAt (u0\<lparr>lastLogin := Some now\<rparr>) \<le> now"
    using c clock by simp
  with st1 c login mem
  show "\<exists>u0. st1 = Available (docs0 @ [u0]) \<and> createdAt u0 = t0
                    \<and> login_vr cfg now b st1
                        = (login_ok_vr (u0\<lparr>lastLogin := Some now\<rparr>),
                           Available (map (\<lambda>v. if uid v = uid u0 then v\<lparr>lastLogin := Some now\<rparr>
                                                else v) (docs0 @ [u0])))
                    \<and> u0\<lparr>lastLogin := Some now\<rparr>
                        \<in> set (map (\<lambda>v. if uid v = uid u0 then v\<lparr>lastLogin := Some now\<rparr>
                                         else v) (docs0 @ [u0]))
                    \<and> createdAt (u0\<lparr>lastLogin := Some now\<rparr>) \<le> now"
    by blast
next
  assume h: "findOne_by_email e (Available docs) = Inr (Some u) \<and> password u = p"
  show "login_srv cfg b (Available docs) = (login_ok_srv u, Available docs)"
    using h assms by (simp add: login_srv_def login_validate_def User_findOne_srv_def)
  show "status (login_ok_srv u) = 200"
    by (simp add: login_ok_srv_def)
  show "json_get ''user'' (body (login_ok_srv u))
                     = Some (JObj [(''id'', JId (uid u)), (''fullName'', JStr (fullName u)),
                                   (''email'', JStr (email u))])"
    by (simp add: login_ok_srv_def json_get_def)
qed

theorem login_success_updates_lastLogin_witness:
  "User_findOne_vr sample_config (toLowerCase ''Asha@Example.com'') (Available [asha]) = Inr (Some asha)
   \<and> password asha = ''secret1'' \<and> validate_vr asha = [] \<and> createdAt asha \<le> 2000
   \<and> login_vr sample_config 2000 (credentials ''Asha@Example.com'' ''secret1'') (Available [asha])
       = (\<lparr>status = 200,
           body = JObj [(''success'', JBool True), (''message'', JStr ''Login successful!''),
                        (''user'', JObj [(''id'', JId 1), (''fullName'', JStr ''Asha Rao''),
                                         (''email'', JStr ''asha@example.com''),
                                         (''lastLogin'', JDate 2000)])]\<rparr>,
          Available [asha\<lparr>lastLogin := Some 2000\<rparr>])
   \<and> createdAt (asha\<lparr>lastLogin := Some 2000\<rparr>) \<le> 2000
   \<and> User_findOne_vr sample_config (toLowerCase ''Asha@Example.com'')
         (Available [asha\<lparr>fullName := ''A''\<rparr>]) = Inr (Some (asha\<lparr>fullName := ''A''\<rparr>))
   \<and> validate_vr (asha\<lparr>fullName := ''A''\<rparr>) \<noteq> []
   \<and> status (fst (login_vr sample_config 2000 (credentials ''Asha@Example.com'' ''secret1'')
         (Available [asha\<lparr>fullName := ''A''\<rparr>]))) = 500
   \<and> snd (login_vr sample_config 2000 (credentials ''Asha@Example.com'' ''secret1'')
         (Available [asha\<lparr>fullName := ''A''\<rparr>])) = Available [asha\<lparr>fullName := ''A''\<rparr>]
   \<and> status (fst (login_vr_at sample_config 2000 (credentials ''Asha@Example.com'' ''secret1'')
         (Available [asha]) (Unavailable ''connection lost''))) = 500
   \<and> snd (login_vr_at sample_config 2000 (credentials ''Asha@Example.com'' ''secret1'')
         (Available [asha]) (Unavailable ''connection lost'')) = Unavailable ''connection lost''
   \<and> register_validate (Str ''Bina Rao'') (Str ''Bina@Example.com'') (Str ''secret9'') (Str ''secret9'')
       = Inr (Str ''Bina Rao'', Str ''Bina@Example.com'', Str ''secret9'')
   \<and> trim (toLowerCase ''Bina@Example.com'') = toLowerCase ''Bina@Example.com''
   \<and> status (fst (register_vr sample_config 3000
         (registration ''Bina Rao'' ''Bina@Example.com'' ''secret9'' ''secret9'') (Available [asha]))) = 201
   \<and> (3000 :: int) \<le> 4000
   \<and> login_vr sample_config 4000 (credentials ''Bina@Example.com'' ''secret9'')
         (snd (register_vr sample_config 3000
            (registration ''Bina Rao'' ''Bina@Example.com'' ''secret9'' ''secret9'') (Available [asha])))
       = (login_ok_vr \<lparr>uid = 2, fullName = ''Bina Rao'', email = ''bina@example.com'',
                        password = ''secret9'', createdAt = 3000, lastLogin = Some 4000\<rparr>,
          Available [asha,
                     \<lparr>uid = 2, fullName = ''Bina Rao'', email = ''bina@example.com'',
                      password = ''secret9'', createdAt = 3000, lastLogin = Some 4000\<rparr>])
   \<and> findOne_by_email ''asha@example.com'' (Available [asha]) = Inr (Some asha)
   \<and> login_srv sample_config (credentials ''asha@example.com'' ''secret1'') (Available [asha])
       = (login_ok_srv asha, Available [asha])"
proof -
  let ?b = "credentials ''Asha@Example.com'' ''secret1''"
  let ?b' = "credentials ''asha@example.com'' ''secret1''"
  let ?bb = "credentials ''Bina@Example.com'' ''secret9''"
  let ?rb = "registration ''Bina Rao'' ''Bina@Example.com'' ''secret9'' ''secret9''"
  let ?legacy = "asha\<lparr>fullName := ''A''\<rparr>"
  let ?bina = "\<lparr>uid = 2, fullName = ''Bina Rao'', email = ''bina@example.com'',
                 password = ''secret9'', createdAt = 3000, lastLogin = None\<rparr>"
  have b: "body_email ?b = Str ''Asha@Example.com''" "''Asha@Example.com'' \<noteq> []"
    "body_password ?b = Str ''secret1''" "''secret1'' \<noteq> []"
    and b': "body_email ?b' = Str ''asha@example.com''" "''asha@example.com'' \<noteq> []"
    "body_password ?b' = Str ''secret1''" "''secret1'' \<noteq> []"
    and bb: "body_email ?bb = Str ''Bina@Example.com''" "''Bina@Example.com'' \<noteq> []"
    "body_password ?bb = Str ''secret9''" "''secret9'' \<noteq> []"
    by (simp_all add: credentials_def)
  have preA: "User_findOne_vr sample_config (toLowerCase ''Asha@Example.com'') (Available [asha])
               = Inr (Some asha)
      \<and> password asha = ''secret1'' \<and> validate_vr asha = []"
    and clockA: "createdAt asha \<le> 2000"
    and preB: "User_findOne_vr sample_config (toLowerCase ''Asha@Example.com'')
         (Available [?legacy]) = Inr (Some ?legacy)
      \<and> password ?legacy = ''secret1'' \<and> validate_vr ?legacy \<noteq> []"
    and preE: "findOne_by_email ''asha@example.com'' (Available [asha]) = Inr (Some asha)
      \<and> password asha = ''secret1''"
    by (simp_all add: User_findOne_vr_def findOne_by_email_def sample_config_def asha_def
        validate_vr_def validate_fullName_vr_def validate_email_vr_def validate_password_vr_def
        js_eval)
  note thmA = login_success_updates_lastLogin [OF b, where cfg = sample_config
      and docs = "[asha]" and u = asha and now = 2000 and st_find = "Available [asha]"
      and m = "''connection lost''"]
  from thmA preA clockA
  have A: "login_vr sample_config 2000 ?b (Available [asha])
          = (login_ok_vr (asha\<lparr>lastLogin := Some 2000\<rparr>),
             Available (map (\<lambda>v. if uid v = uid asha then v\<lparr>lastLogin := Some 2000\<rparr> else v) [asha]))"
    and A': "createdAt (asha\<lparr>lastLogin := Some 2000\<rparr>) \<le> 2000"
    and C: "status (fst (login_vr_at sample_config 2000 ?b (Available [asha])
               (Unavailable ''connection lost''))) = 500"
      "snd (login_vr_at sample_config 2000 ?b (Available [asha]) (Unavailable ''connection lost''))
         = Unavailable ''connection lost''"
    by blast+
  from A have A2: "login_vr sample_config 2000 ?b (Available [asha])
       = (\<lparr>status = 200,
           body = JObj [(''success'', JBool True), (''message'', JStr ''Login successful!''),
                        (''user'', JObj [(''id'', JId 1), (''fullName'', JStr ''Asha Rao''),
                                         (''email'', JStr ''asha@example.com''),
                                         (''lastLogin'', JDate 2000)])]\<rparr>,
          Available [asha\<lparr>lastLogin := Some 2000\<rparr>])"
    by (simp add: login_ok_vr_def asha_def)
  from login_success_updates_lastLogin [OF b, where cfg = sample_config
      and docs = "[?legacy]" and u = ?legacy and now = 2000] preB
  have B: "login_vr sample_config 2000 ?b (Available [?legacy])
      = (login_catch_vr sample_config (validation_error (validate_vr ?legacy)), Available [?legacy])"
    and B': "status (login_catch_vr sample_config (validation_error (validate_vr ?legacy))) = 500"
    by blast+
  from B B' have B2: "status (fst (login_vr sample_config 2000 ?b (Available [?legacy]))) = 500"
    "snd (login_vr sample_config 2000 ?b (Available [?legacy])) = Available [?legacy]"
    by simp_all
  have v: "register_validate (body_fullName ?rb) (body_email ?rb) (body_password ?rb)
      (body_confirmPassword ?rb) = Inr (Str ''Bina Rao'', Str ''Bina@Example.com'', Str ''secret9'')"
    and v': "register_validate (Str ''Bina Rao'') (Str ''Bina@Example.com'') (Str ''secret9'')
      (Str ''secret9'') = Inr (Str ''Bina Rao'', Str ''Bina@Example.com'', Str ''secret9'')"
    by (simp_all add: registration_def register_validate_def)
  have norm: "trim (toLowerCase ''Bina@Example.com'') = toLowerCase ''Bina@Example.com''"
    by (simp add: js_eval)
  have reg: "register_vr sample_config 3000 ?rb (Available [asha])
      = (register_created_vr ?bina, Available [asha, ?bina])"
    by (simp add: register_vr_def register_vr_at_def registration_def register_validate_def
        cast_String_def validate_fullName_vr_def validate_email_vr_def validate_password_vr_def
        User_findOne_vr_def findOne_by_email_def sample_config_def asha_def new_User_vr_def
        ObjectId_def save_new_vr_def validate_vr_def insertOne_def Let_def numeral_2_eq_2 js_eval)
  have ok: "status (register_created_vr ?bina) = 201"
    by (simp add: register_created_vr_def)
  have clock: "(3000 :: int) \<le> 4000" by simp
  from login_success_updates_lastLogin [OF bb, where cfg = sample_config and now = 4000
      and rb = ?rb and f = "''Bina Rao''" and ?t0.0 = 3000 and ?docs0.0 = "[asha]"
      and r = "register_created_vr ?bina" and ?st1.0 = "Available [asha, ?bina]"]
    v norm reg ok clock
  obtain u0 where u0: "Available [asha, ?bina] = Available ([asha] @ [u0])"
    and D: "login_vr sample_config 4000 ?bb (Available [asha, ?bina])
        = (login_ok_vr (u0\<lparr>lastLogin := Some 4000\<rparr>),
           Available (map (\<lambda>v. if uid v = uid u0 then v\<lparr>lastLogin := Some 4000\<rparr> else v)
                        ([asha] @ [u0])))"
    by blast
  from u0 have "u0 = ?bina" by simp
  with D have D2: "login_vr sample_config 4000 ?bb (Available [asha, ?bina])
       = (login_ok_vr \<lparr>uid = 2, fullName = ''Bina Rao'', email = ''bina@example.com'',
                        password = ''secret9'', createdAt = 3000, lastLogin = Some 4000\<rparr>,
          Available [asha,
                     \<lparr>uid = 2, fullName = ''Bina Rao'', email = ''bina@example.com'',
                      password = ''secret9'', createdAt = 3000, lastLogin = Some 4000\<rparr>])"
    by (simp add: asha_def)
  from reg ok have R: "status (fst (register_vr sample_config 3000 ?rb (Available [asha]))) = 201"
    by simp
  from D2 reg have D3: "login_vr sample_config 4000 ?bb
         (snd (register_vr sample_config 3000 ?rb (Available [asha])))
       = (login_ok_vr \<lparr>uid = 2, fullName = ''Bina Rao'', email = ''bina@example.com'',
                        password = ''secret9'', createdAt = 3000, lastLogin = Some 4000\<rparr>,
          Available [asha,
                     \<lparr>uid = 2, fullName = ''Bina Rao'', email = ''bina@example.com'',
                      password = ''secret9'', createdAt = 3000, lastLogin = Some 4000\<rparr>])"
    by simp
  from login_success_updates_lastLogin [OF b', where cfg = sample_config
      and docs = "[asha]" and u = asha] preE
  have E: "login_srv sample_config ?b' (Available [asha]) = (login_ok_srv asha, Available [asha])"
    by blast
  from preA clockA A2 A' preB B2 C v' norm R clock D3 preE E show ?thesis
    by blast
qed

section \<open>The two implementations side by side\<close>













end
